theory Spec2Isabelle
  imports Main "HOL-Library.Word"
begin

unbundle bit_operations_syntax

section \<open>Data model of drvModbus\<close>

text \<open>
  The driver is C written for GCC on a little-endian host: its byte-order macros are called
  \<open>BIG_TO_LITTLE_ENDIAN\<close> and \<open>LITTLE_TO_BIG_ENDIAN\<close> and are applied unconditionally. The
  embedding fixes that platform: a \<open>uint16_t\<close> lies in memory low byte first, \<open>size_t\<close> and
  pointers are 64 bits wide, and a struct that is not declared \<open>packed\<close> aligns its
  \<open>uint16_t\<close> members to even offsets.
\<close>

type_synonym u8 = "8 word"
type_synonym u16 = "16 word"
type_synonym ptr = "64 word"

text \<open>\<open>struct sockaddr_in\<close>; two addresses are equal exactly when \<open>memcmp\<close> over them is 0.\<close>

record sockaddr_in =
  sin_family :: u16
  sin_port :: u16
  sin_addr :: "32 word"
  sin_zero :: "64 word"

text \<open>
  \<open>modbus_device_t\<close>. The \<open>epicsMutexId\<close> member is a handle; the state of the mutex it names
  is the field \<open>lock_depth\<close> of the world below.
\<close>

record modbus_device_t =
  addr :: sockaddr_in

text \<open>\<open>modbus_mbap_header_t\<close>, declared \<open>packed\<close>: 7 bytes.\<close>

record modbus_mbap_header_t =
  trans_id :: u16
  protocol_id :: u16
  len :: u16
  unit_id :: u8

text \<open>
  What the transport holds for the next \<open>recvfrom\<close>: a failure of the call that leaves the
  buffer alone, or a datagram with the address of its sender. What the call makes of a
  datagram depends on the host, see \<open>recvfrom_accepts_addrlen\<close> below.
\<close>

datatype rx_event = RxError | RxFrame sockaddr_in "u8 list"

text \<open>
  The state outside the driver's locals: whether \<open>g_ModbusSocket\<close> holds a socket, how often
  the device's (recursive) mutex is held, the datagrams passed to \<open>sendto\<close> so far (oldest
  first) and the events \<open>recvfrom\<close> will yield. An empty \<open>inbox\<close> means that nothing more
  ever arrives: the source has no timeout, so \<open>recvfrom\<close> then blocks for ever.
\<close>

record world =
  sock_open :: bool
  lock_depth :: nat
  wire :: "(sockaddr_in \<times> u8 list) list"
  inbox :: "rx_event list"

text \<open>
  Values the C library and the compiler choose: the result of \<open>rand()\<close> (0 to \<open>RAND_MAX\<close>),
  the pointers \<open>malloc\<close> returns for the send and the receive buffer (0 is \<open>NULL\<close>), the
  address of the local \<open>outLen\<close> of \<open>modbus_SendPacket\<close>, the bytes found in memory that was
  never written, the padding byte of a request struct that was not cleared, and the value
  a \<open>return;\<close> without an expression leaves as the result of an \<open>int\<close> function.

  Two more fields say what the host does where the source leaves the rules of C and POSIX.
  \<^item> \<open>modbus_RecvBlock\<close> calls \<open>recvfrom(..., &addr, sizeof(struct sockaddr_in))\<close>: the last
    argument is the number 16 where a pointer to a \<open>socklen_t\<close> is expected.
    \<open>recvfrom_accepts_addrlen\<close> is whether the host goes on with that. A host that checks
    the pointer (Linux) does not: it copies the datagram into the buffer and then fails
    with \<open>EFAULT\<close>, so the call returns -1 for every datagram.
  \<^item> \<open>modbus_RecvPacket\<close> calls \<open>memcpy(pOutData, pOutData + 7, len - 7)\<close>. For \<open>len\<close> below 7
    the size wraps around in \<open>size_t\<close>, for \<open>len\<close> above 14 source and destination
    overlap; C gives the call no meaning in either case. \<open>wild_memcpy buf n\<close> is what the
    host's \<open>memcpy\<close> does then with the buffer \<open>buf\<close> and the size \<open>n\<close>: \<open>None\<close> when it
    never returns (a memory fault), \<open>Some buf'\<close> when it returns and leaves \<open>buf'\<close>.
\<close>

record env =
  rand_val :: nat
  tx_buf_ptr :: ptr
  rx_buf_ptr :: ptr
  outlen_ptr :: ptr
  heap_junk :: "nat \<Rightarrow> u8"
  pad_junk :: u8
  stale_ret :: int
  recvfrom_accepts_addrlen :: bool
  wild_memcpy :: "u8 list \<Rightarrow> 64 word \<Rightarrow> u8 list option"

text \<open>
  Ways in which a call does not return: it blocks for ever in \<open>recvfrom\<close>, it ends in a
  memory fault (a null pointer, an index or a copy past the end of the buffer, a
  \<open>wild_memcpy\<close> that does not come back), or the \<open>assert\<close> of \<open>MALLOC_MUST_SUCCEED\<close> stops
  it.
\<close>

datatype abort = Blocked | MemFault | AssertFailed

section \<open>Byte order\<close>

text \<open>
  The right-hand side of both macros: \<open>((s >> 8) & 0x00FF) | ((s << 8) & 0xFF00)\<close> on the
  promoted \<open>int\<close>, stored back into 16 bits.
\<close>

definition swap16 :: "u16 \<Rightarrow> u16" where
  "swap16 s = ((drop_bit 8 s) AND 0x00FF) OR ((push_bit 8 s) AND 0xFF00)"

text \<open>
  The same expression on a \<open>uint8_t\<close> lvalue, as \<open>modbus_ReadInputRegisters\<close> applies it: the
  byte is promoted to \<open>int\<close>, the expression computed, and the result stored into 8 bits.
\<close>

definition swap16_on_u8 :: "u8 \<Rightarrow> u8" where
  "swap16_on_u8 b =
     (let s = (ucast b :: 32 word)
      in ucast (((drop_bit 8 s) AND 0x00FF) OR ((push_bit 8 s) AND 0xFF00)))"

text \<open>A \<open>uint16_t\<close> in memory of the host, and read back from two bytes.\<close>

definition u16_mem :: "u16 \<Rightarrow> u8 list" where
  "u16_mem s = [ucast s, ucast (drop_bit 8 s)]"

definition mem_u16 :: "u8 \<Rightarrow> u8 \<Rightarrow> u16" where
  "mem_u16 b0 b1 = (ucast b0) OR (push_bit 8 (ucast b1))"

text \<open>The object representation \<open>memcpy\<close> copies out of a \<open>modbus_mbap_header_t\<close>.\<close>

definition mbap_mem :: "modbus_mbap_header_t \<Rightarrow> u8 list" where
  "mbap_mem h = u16_mem (trans_id h) @ u16_mem (protocol_id h) @ u16_mem (len h) @ [unit_id h]"

text \<open>
  The object representation of the request structs (\<open>uint8_t\<close> code, \<open>uint16_t\<close>,
  \<open>uint16_t\<close>; not packed, so \<open>sizeof\<close> is 6 and offset 1 is padding).
\<close>

definition req_mem :: "u8 \<Rightarrow> u8 \<Rightarrow> u16 \<Rightarrow> u16 \<Rightarrow> u8 list" where
  "req_mem code pad a b = [code, pad] @ u16_mem a @ u16_mem b"

section \<open>Sending\<close>

text \<open>
  \<open>modbus_SendBlock\<close>: \<open>sendto\<close> on the global socket. Without a socket the call fails and
  nothing leaves; the result is the number of bytes sent or -1.
\<close>

definition modbus_SendBlock :: "world \<Rightarrow> u8 list option \<Rightarrow> sockaddr_in \<Rightarrow> int \<times> world" where
  "modbus_SendBlock w pBuf dest =
     (case pBuf of
        None \<Rightarrow> (-1, w)
      | Some bs \<Rightarrow>
          if sock_open w then (int (length bs), w\<lparr>wire := wire w @ [(dest, bs)]\<rparr>)
          else (-1, w))"

text \<open>
  \<open>modbus_ConstructPacket\<close>. \<open>pBuf\<close> with \<open>nLen\<close> is the list \<open>pdu\<close> (\<open>None\<close> for a null
  pointer), \<open>pOutBuf\<close> is the pointer \<open>modbus_SendPacket\<close> got from \<open>malloc\<close>. The second test
  of the source compares the pointer \<open>pOutLen\<close> itself, not the length it points to, with
  \<open>sizeof(modbus_mbap_header_t) + nLen\<close>. \<open>None\<close> is the return value -1; \<open>Some (frame, tid)\<close> is
  the return value 0 with \<open>frame\<close> written to \<open>pOutBuf\<close>, its length to \<open>*pOutLen\<close> and \<open>tid\<close>
  to \<open>*transactionID\<close>.
\<close>

definition modbus_ConstructPacket :: "env \<Rightarrow> u8 list option \<Rightarrow> ptr \<Rightarrow> ptr \<Rightarrow> (u8 list \<times> u16) option" where
  "modbus_ConstructPacket e pBuf pOutBuf pOutLen =
     (case pBuf of
        None \<Rightarrow> None
      | Some pdu \<Rightarrow>
          if pOutBuf = 0 then None
          else if unat pOutLen < 7 + length pdu then None
          else
            let header = \<lparr> trans_id = of_nat (rand_val e mod 65535),
                           protocol_id = 0,
                           len = of_nat (length pdu + 1),
                           unit_id = 255 \<rparr>
            in Some (mbap_mem header @ pdu, trans_id header))"

text \<open>
  \<open>modbus_SendPacket\<close>: the transaction id as an \<open>int\<close>, or -1. The result of
  \<open>modbus_SendBlock\<close> is not looked at.
\<close>

definition modbus_SendPacket :: "env \<Rightarrow> world \<Rightarrow> modbus_device_t option \<Rightarrow> u8 list \<Rightarrow> int \<times> world" where
  "modbus_SendPacket e w device pData =
     (case device of
        None \<Rightarrow> (-1, w)
      | Some d \<Rightarrow>
          (case modbus_ConstructPacket e (Some pData) (tx_buf_ptr e) (outlen_ptr e) of
             None \<Rightarrow> (-1, w)
           | Some (frame, tID) \<Rightarrow>
               (uint tID, snd (modbus_SendBlock w (Some frame) (addr d)))))"

section \<open>Locking\<close>

text \<open>
  \<open>modbus_ConnectDevice\<close> returns without locking for a null device or a missing socket;
  \<open>epicsMutexLock\<close> itself is taken to succeed, as it does for a single caller.
  \<open>modbus_DisconnectDevice\<close> unlocks; its callers have tested the device pointer. A mutex
  that is not held stays so.
\<close>

definition modbus_ConnectDevice :: "world \<Rightarrow> modbus_device_t option \<Rightarrow> world" where
  "modbus_ConnectDevice w device =
     (case device of
        None \<Rightarrow> w
      | Some d \<Rightarrow> if \<not> sock_open w then w else w\<lparr>lock_depth := Suc (lock_depth w)\<rparr>)"

definition modbus_DisconnectDevice :: "world \<Rightarrow> modbus_device_t \<Rightarrow> world" where
  "modbus_DisconnectDevice w device =
     w\<lparr>lock_depth := (case lock_depth w of 0 \<Rightarrow> 0 | Suc n \<Rightarrow> n)\<rparr>"

section \<open>Receiving\<close>

text \<open>
  What \<open>recvfrom\<close> leaves in a buffer of \<open>length buf\<close> bytes when the datagram \<open>bs\<close>
  arrives: the datagram, cut to the size of the buffer, over the front of what was there.
\<close>

definition recv_into :: "u8 list \<Rightarrow> u8 list \<Rightarrow> u8 list" where
  "recv_into buf bs =
     (let got = take (length buf) bs in got @ drop (length got) buf)"

text \<open>
  The \<open>do ... while\<close> loop of \<open>modbus_RecvBlock\<close> over the events still to come. Every
  datagram is copied into the buffer. Where the host rejects the address-length argument,
  the call has failed by then and the function returns -1, whoever the sender was.
  Otherwise the loop ends with the first datagram whose sender is the device and returns
  the number of bytes copied, and it goes round again for a datagram of another sender. A
  failure of \<open>recvfrom\<close> ends it with -1.
\<close>

fun recv_loop :: "env \<Rightarrow> sockaddr_in \<Rightarrow> u8 list \<Rightarrow> rx_event list \<Rightarrow> (abort + int) \<times> u8 list \<times> rx_event list" where
  "recv_loop e a buf [] = (Inl Blocked, buf, [])"
| "recv_loop e a buf (RxError # rest) = (Inr (-1), buf, rest)"
| "recv_loop e a buf (RxFrame src bs # rest) =
     (if \<not> recvfrom_accepts_addrlen e then (Inr (-1), recv_into buf bs, rest)
      else if src = a then (Inr (int (length (take (length buf) bs))), recv_into buf bs, rest)
      else recv_loop e a (recv_into buf bs) rest)"

text \<open>
  \<open>modbus_RecvBlock\<close>; \<open>pBuf\<close> with \<open>nLen\<close> is the list (\<open>None\<close> for a null pointer). The
  second component is the buffer afterwards (\<open>[]\<close> when there is none).
\<close>

definition modbus_RecvBlock :: "env \<Rightarrow> world \<Rightarrow> modbus_device_t option \<Rightarrow> u8 list option \<Rightarrow> (abort + int) \<times> u8 list \<times> world" where
  "modbus_RecvBlock e w pDevice pBuf =
     (case pDevice of
        None \<Rightarrow> (Inr (-1), (case pBuf of None \<Rightarrow> [] | Some b \<Rightarrow> b), w)
      | Some d \<Rightarrow>
          (case pBuf of
             None \<Rightarrow> (Inr (-1), [], w)
           | Some buf \<Rightarrow>
               if \<not> sock_open w then (Inr (-1), buf, w)
               else (case recv_loop e (addr d) buf (inbox w) of
                       (r, buf', rest) \<Rightarrow> (r, buf', w\<lparr>inbox := rest\<rparr>))))"

text \<open>
  \<open>memcpy(pOutData, pOutData + 7, n - 7)\<close> for \<open>n\<close> from 7 to 14, where it is defined: the
  bytes behind the header come to the front of the buffer, what lies behind them stays.
\<close>

definition move_pdu :: "u8 list \<Rightarrow> nat \<Rightarrow> u8 list" where
  "move_pdu buf n = take (n - 7) (drop 7 buf) @ drop (n - 7) buf"

text \<open>
  \<open>modbus_RecvPacket\<close>. The header is read through the buffer whatever \<open>modbus_RecvBlock\<close>
  returned, and its transaction id is compared as it lies in memory. When the ids are
  equal, \<open>memcpy\<close> is called with the size \<open>len - sizeof(modbus_mbap_header_t)\<close>, computed
  in \<open>size_t\<close>: outside 7 to 14 (and so for -1) the host decides what happens, and if its
  \<open>memcpy\<close> returns, \<open>len\<close> is returned as for any other frame.
\<close>

definition modbus_RecvPacket :: "env \<Rightarrow> world \<Rightarrow> modbus_device_t option \<Rightarrow> u8 list option \<Rightarrow> u16 \<Rightarrow> (abort + int) \<times> u8 list \<times> world" where
  "modbus_RecvPacket e w pDevice pOutData tID =
     (case modbus_RecvBlock e w pDevice pOutData of
        (Inl a, buf, w') \<Rightarrow> (Inl a, buf, w')
      | (Inr n, buf, w') \<Rightarrow>
          (case buf of
             b0 # b1 # _ \<Rightarrow>
               if mem_u16 b0 b1 = tID then
                 (if 7 \<le> n \<and> n \<le> 14 then (Inr n, move_pdu buf (nat n), w')
                  else (case wild_memcpy e buf (word_of_int n - 7) of
                          None \<Rightarrow> (Inl MemFault, buf, w')
                        | Some buf' \<Rightarrow> (Inr n, buf', w')))
               else (Inr (-1), buf, w')
           | _ \<Rightarrow> (Inl MemFault, buf, w')))"

section \<open>The function operations\<close>

text \<open>
  What a call leaves behind: the value returned (or why it never returns), the bytes
  \<open>memcpy\<close> stored through \<open>pOutBuf\<close> from its start (\<open>[]\<close> when nothing was stored), the
  value stored through the count pointer (\<open>None\<close> when nothing was stored), and the world.
\<close>

record op_result =
  retval :: "abort + int"
  out_bytes :: "u8 list"
  out_count :: "u16 option"
  final :: world

definition returns :: "int \<Rightarrow> world \<Rightarrow> op_result" where
  "returns r w = \<lparr> retval = Inr r, out_bytes = [], out_count = None, final = w \<rparr>"

definition aborts :: "abort \<Rightarrow> world \<Rightarrow> op_result" where
  "aborts a w = \<lparr> retval = Inl a, out_bytes = [], out_count = None, final = w \<rparr>"

text \<open>
  The block \<open>malloc\<close> returns: \<open>n\<close> bytes nobody has written. Where \<open>malloc\<close> returns
  \<open>NULL\<close>, \<open>MALLOC_MUST_SUCCEED\<close> stops in its \<open>assert\<close> (a build with \<open>NDEBUG\<close> would
  return -1 instead).
\<close>

definition fresh :: "env \<Rightarrow> nat \<Rightarrow> u8 list" where
  "fresh e n = map (heap_junk e) [0..<n]"

text \<open>
  \<open>memcpy(pOutBuf, pBuf + 2, n)\<close> where \<open>n\<close> was computed in \<open>size_t\<close>: the bytes stored, or
  nothing when the source range leaves the buffer or the destination is null.
\<close>

definition copy_out :: "ptr \<Rightarrow> u8 list \<Rightarrow> 64 word \<Rightarrow> u8 list option" where
  "copy_out pOutBuf buf n =
     (if pOutBuf = 0 \<or> 2 + unat n > length buf then None
      else Some (take (unat n) (drop 2 buf)))"

text \<open>
  \<open>modbus_ReadCoils\<close>. The macro \<open>LITTLE_TO_BIG_ENDIAN(x)\<close> expands to an assignment to
  \<open>x\<close>, so after \<open>packet.ncoils = LITTLE_TO_BIG_ENDIAN(ncoils)\<close> the parameter \<open>ncoils\<close> itself
  holds the swapped value, and \<open>len = ncoils + 2\<close> is computed from that.
\<close>

definition modbus_ReadCoils :: "env \<Rightarrow> world \<Rightarrow> modbus_device_t option \<Rightarrow> u16 \<Rightarrow> u16 \<Rightarrow> ptr \<Rightarrow> ptr \<Rightarrow> op_result" where
  "modbus_ReadCoils e w device addr0 ncoils0 pOutBuf nOutCoils =
     (case device of
        None \<Rightarrow> returns (-1) w
      | Some d \<Rightarrow>
          if pOutBuf = 0 \<or> nOutCoils = 0 then returns (-1) w
          else if ncoils0 > 0x7D0 then returns (-1) w
          else
            let ncoils = swap16 ncoils0;
                addr1 = swap16 addr0;
                packet = req_mem 0x01 (pad_junk e) addr1 ncoils;
                w1 = modbus_ConnectDevice w device;
                (tID, w2) = modbus_SendPacket e w1 device packet;
                len = unat ncoils + 2
            in if rx_buf_ptr e = 0 then aborts AssertFailed w2
               else
                 (case modbus_RecvPacket e w2 device (Some (fresh e len)) (word_of_int tID) of
                    (Inl a, pBuf, w3) \<Rightarrow> aborts a w3
                  | (Inr r, pBuf, w3) \<Rightarrow>
                      if r > -1 then
                        (case pBuf of
                           [] \<Rightarrow> aborts MemFault w3
                         | b0 # _ \<Rightarrow>
                             if b0 = 0x81 then returns (uint b0 + 1) w3
                             else
                               (case copy_out pOutBuf pBuf (of_nat len - 2) of
                                  None \<Rightarrow> aborts MemFault w3
                                | Some bs \<Rightarrow>
                                    \<lparr> retval = Inr 0, out_bytes = bs, out_count = None,
                                      final = modbus_DisconnectDevice w3 d \<rparr>))
                      else returns (-1) w3))"

text \<open>
  \<open>modbus_WriteSingleRegister\<close>. The response is received into a second request struct of
  6 bytes, cleared before. The result of \<open>modbus_RecvPacket\<close> is stored in \<open>bytes\<close> and not
  used; the fields compared are those of the two structs.
\<close>

definition modbus_WriteSingleRegister :: "env \<Rightarrow> world \<Rightarrow> modbus_device_t option \<Rightarrow> u16 \<Rightarrow> u16 \<Rightarrow> op_result" where
  "modbus_WriteSingleRegister e w device addr0 value0 =
     (case device of
        None \<Rightarrow> returns (stale_ret e) w
      | Some d \<Rightarrow>
          let addr1 = swap16 addr0;
              value1 = swap16 value0;
              packet = req_mem 0x06 0 addr1 value1;
              w1 = modbus_ConnectDevice w device;
              (tID, w2) = modbus_SendPacket e w1 device packet
          in (case modbus_RecvPacket e w2 device (Some (replicate 6 0)) (word_of_int tID) of
                (Inl a, res_packet, w3) \<Rightarrow> aborts a w3
              | (Inr bytes, res_packet, w3) \<Rightarrow>
                  (case res_packet of
                     [c, p, a0, a1, v0, v1] \<Rightarrow>
                       if value1 \<noteq> mem_u16 v0 v1 \<or> addr1 \<noteq> mem_u16 a0 a1 then returns (-1) w3
                       else returns 0 (modbus_DisconnectDevice w3 d)
                   | _ \<Rightarrow> aborts MemFault w3)))"

text \<open>
  \<open>modbus_ReadDiscreteInputs\<close>. The result of \<open>modbus_RecvPacket\<close> is stored in the
  \<open>size_t\<close> variable \<open>len\<close>, so the test \<open>len < 0\<close> is never true. \<open>code\<close> and the value
  returned for an exception are casts of the pointer \<open>pBuf\<close>, not of what it points to.
\<close>

definition modbus_ReadDiscreteInputs :: "env \<Rightarrow> world \<Rightarrow> modbus_device_t option \<Rightarrow> u16 \<Rightarrow> u16 \<Rightarrow> ptr \<Rightarrow> ptr \<Rightarrow> op_result" where
  "modbus_ReadDiscreteInputs e w device addr0 ncoils0 pOutBuf nOutCoils =
     (case device of
        None \<Rightarrow> returns (-1) w
      | Some d \<Rightarrow>
          if pOutBuf = 0 \<or> nOutCoils = 0 then returns (-1) w
          else
            let w1 = modbus_ConnectDevice w device;
                addr1 = swap16 addr0;
                ncoils = swap16 ncoils0;
                packet = req_mem 0x02 (pad_junk e) addr1 ncoils;
                (tID, w2) = modbus_SendPacket e w1 device packet
            in if tID < 0 then returns (-1) w2
               else if rx_buf_ptr e = 0 then aborts AssertFailed w2
               else
                 (case modbus_RecvPacket e w2 device (Some (fresh e (unat ncoils + 2))) (word_of_int tID) of
                    (Inl a, pBuf, w3) \<Rightarrow> aborts a w3
                  | (Inr r, pBuf, w3) \<Rightarrow>
                      let len = (word_of_int r :: 64 word);
                          code = (ucast (rx_buf_ptr e) :: u8);
                          w4 = modbus_DisconnectDevice w3 d
                      in if code = 0x82 then returns (uint (ucast (rx_buf_ptr e + 1) :: u8)) w4
                         else
                           (case copy_out pOutBuf pBuf (len - 2) of
                              None \<Rightarrow> aborts MemFault w4
                            | Some bs \<Rightarrow>
                                \<lparr> retval = Inr 0, out_bytes = bs, out_count = None, final = w4 \<rparr>)))"

text \<open>
  The loop of \<open>modbus_ReadHoldingRegisters\<close>,
  \<open>for(int i = 2; i < len; i += 2) ((uint16_t*)pBuf)[i] = BIG_TO_LITTLE_ENDIAN(((uint16_t*)pBuf)[i])\<close>:
  \<open>i\<close> indexes 16-bit elements, so element \<open>i\<close> is the bytes \<open>2 * i\<close> and \<open>2 * i + 1\<close>, and
  \<open>len\<close> (the argument \<open>n\<close>) is a \<open>size_t\<close>. \<open>None\<close> when an element lies outside the buffer.
\<close>

definition load_u16 :: "u8 list \<Rightarrow> nat \<Rightarrow> u16" where
  "load_u16 buf off = mem_u16 (buf ! off) (buf ! Suc off)"

definition store_u16 :: "u8 list \<Rightarrow> nat \<Rightarrow> u16 \<Rightarrow> u8 list" where
  "store_u16 buf off v = buf[off := ucast v, Suc off := ucast (drop_bit 8 v)]"

function swap_u16_loop :: "nat \<Rightarrow> 64 word \<Rightarrow> u8 list \<Rightarrow> u8 list option" where
  "swap_u16_loop i n buf =
     (if i < unat n then
        (if 2 * i + 1 < length buf
         then swap_u16_loop (i + 2) n (store_u16 buf (2 * i) (swap16 (load_u16 buf (2 * i))))
         else None)
      else Some buf)"
  by pat_completeness auto
termination
  by (relation "measure (\<lambda>(i, n, buf). unat n - i)") auto

text \<open>
  The loop of \<open>modbus_ReadInputRegisters\<close>, the same statement through \<open>uint8_t*\<close>:
  \<open>i\<close> indexes bytes.
\<close>

function swap_u8_loop :: "nat \<Rightarrow> 64 word \<Rightarrow> u8 list \<Rightarrow> u8 list option" where
  "swap_u8_loop i n buf =
     (if i < unat n then
        (if i < length buf
         then swap_u8_loop (i + 2) n (buf[i := swap16_on_u8 (buf ! i)])
         else None)
      else Some buf)"
  by pat_completeness auto
termination
  by (relation "measure (\<lambda>(i, n, buf). unat n - i)") auto

text \<open>
  \<open>modbus_ReadHoldingRegisters\<close>. No test of \<open>nregs\<close>, \<open>pOutBuf\<close> or \<open>nOutRegs\<close> precedes
  the I/O. As in \<open>modbus_ReadCoils\<close> the macro leaves the swapped count in \<open>nregs\<close>, and as in
  \<open>modbus_ReadDiscreteInputs\<close> \<open>len\<close> is a \<open>size_t\<close> that receives the \<open>int\<close> result of
  \<open>modbus_RecvPacket\<close>.
\<close>

definition modbus_ReadHoldingRegisters :: "env \<Rightarrow> world \<Rightarrow> modbus_device_t option \<Rightarrow> u16 \<Rightarrow> u16 \<Rightarrow> ptr \<Rightarrow> ptr \<Rightarrow> op_result" where
  "modbus_ReadHoldingRegisters e w device addr0 nregs0 pOutBuf nOutRegs =
     (case device of
        None \<Rightarrow> returns (-1) w
      | Some d \<Rightarrow>
          let addr1 = swap16 addr0;
              nregs = swap16 nregs0;
              packet = req_mem 0x03 (pad_junk e) addr1 nregs;
              w1 = modbus_ConnectDevice w device;
              (tID, w2) = modbus_SendPacket e w1 device packet
          in if tID < 0 then returns (-1) w2
             else if rx_buf_ptr e = 0 then aborts AssertFailed w2
             else
               (case modbus_RecvPacket e w2 device (Some (fresh e (2 * unat nregs + 2))) (word_of_int tID) of
                  (Inl a, pBuf, w3) \<Rightarrow> aborts a w3
                | (Inr r, pBuf, w3) \<Rightarrow>
                    let len = (word_of_int r :: 64 word);
                        w4 = modbus_DisconnectDevice w3 d
                    in (case pBuf of
                          [] \<Rightarrow> aborts MemFault w4
                        | b0 # _ \<Rightarrow>
                            if b0 = 0x83 then returns (uint b0 + 1) w4
                            else
                              (case swap_u16_loop 2 len pBuf of
                                 None \<Rightarrow> aborts MemFault w4
                               | Some buf \<Rightarrow>
                                   (case copy_out pOutBuf buf (len - 2) of
                                      None \<Rightarrow> aborts MemFault w4
                                    | Some bs \<Rightarrow>
                                        (case buf of
                                           _ # b1 # _ \<Rightarrow>
                                             if nOutRegs = 0 then aborts MemFault w4
                                             else \<lparr> retval = Inr 0, out_bytes = bs,
                                                    out_count = Some (ucast b1 div 2), final = w4 \<rparr>
                                         | _ \<Rightarrow> aborts MemFault w4))))))"

text \<open>
  \<open>modbus_ReadInputRegisters\<close>. \<open>modbus_DisconnectDevice\<close> is not called on any path, and
  the count is assigned to the parameter \<open>pOutRegs\<close>, not stored through it.
\<close>

definition modbus_ReadInputRegisters :: "env \<Rightarrow> world \<Rightarrow> modbus_device_t option \<Rightarrow> u16 \<Rightarrow> u16 \<Rightarrow> ptr \<Rightarrow> ptr \<Rightarrow> op_result" where
  "modbus_ReadInputRegisters e w device addr0 nregs0 pOutBuf pOutRegs =
     (case device of
        None \<Rightarrow> returns (-1) w
      | Some d \<Rightarrow>
          let addr1 = swap16 addr0;
              nregs = swap16 nregs0;
              packet = req_mem 0x04 (pad_junk e) addr1 nregs;
              w1 = modbus_ConnectDevice w device;
              (tID, w2) = modbus_SendPacket e w1 device packet
          in if tID < 0 then returns (-1) w2
             else if rx_buf_ptr e = 0 then aborts AssertFailed w2
             else
               (case modbus_RecvPacket e w2 device (Some (fresh e (unat nregs * 2 + 2))) (word_of_int tID) of
                  (Inl a, pBuf, w3) \<Rightarrow> aborts a w3
                | (Inr r, pBuf, w3) \<Rightarrow>
                    let len = (word_of_int r :: 64 word)
                    in (case pBuf of
                          b0 # b1 # _ \<Rightarrow>
                            if b0 = 0x84 then returns (uint b1) w3
                            else
                              (case swap_u8_loop 2 len pBuf of
                                 None \<Rightarrow> aborts MemFault w3
                               | Some buf \<Rightarrow>
                                   (case copy_out pOutBuf buf (len - 2) of
                                      None \<Rightarrow> aborts MemFault w3
                                    | Some bs \<Rightarrow>
                                        \<lparr> retval = Inr 0, out_bytes = bs, out_count = None,
                                          final = w3 \<rparr>))
                        | _ \<Rightarrow> aborts MemFault w3)))"

text \<open>
  How the caller reads the \<open>uint16_t\<close> array \<open>pOutBuf\<close> of the register operations: one
  value for every two bytes stored, in the host's order.
\<close>

fun mem_u16s :: "u8 list \<Rightarrow> u16 list" where
  "mem_u16s (b0 # b1 # rest) = mem_u16 b0 b1 # mem_u16s rest"
| "mem_u16s _ = []"

section \<open>A concrete installation\<close>

text \<open>
  A device at 127.0.0.1, port 502 (both in network byte order, as \<open>modbus_CreateDevice\<close>
  stores them), and a world with an open socket, an unlocked device and nothing sent yet.
  In \<open>example_env\<close> \<open>rand()\<close> yields \<open>0x1234\<close>, every allocation succeeds, \<open>recvfrom\<close>
  delivers each datagram with its sender (the case in which the driver can work at all),
  and a \<open>memcpy\<close> outside the rules of C ends in a memory fault. \<open>efault_env\<close> differs in
  one point: \<open>recvfrom\<close> rejects the address-length argument, as a Linux host does.
\<close>

definition example_device :: modbus_device_t where
  "example_device =
     \<lparr> addr = \<lparr> sin_family = 2, sin_port = 0xF601, sin_addr = 0x0100007F, sin_zero = 0 \<rparr> \<rparr>"

definition example_env :: env where
  "example_env =
     \<lparr> rand_val = 0x1234, tx_buf_ptr = 0x1000, rx_buf_ptr = 0x2000, outlen_ptr = 0x7FFC0000,
       heap_junk = (\<lambda>_. 0xAA), pad_junk = 0, stale_ret = 0,
       recvfrom_accepts_addrlen = True, wild_memcpy = (\<lambda>_ _. None) \<rparr>"

definition efault_env :: env where
  "efault_env = example_env\<lparr> recvfrom_accepts_addrlen := False \<rparr>"

definition example_world :: "rx_event list \<Rightarrow> world" where
  "example_world evs = \<lparr> sock_open = True, lock_depth = 0, wire = [], inbox = evs \<rparr>"

text \<open>
  A second station on the same network, and the events that \<open>modbus_RecvBlock\<close> passes
  over, where \<open>recvfrom\<close> delivers, while it waits for the device at \<open>a\<close>: datagrams
  whose sender is not \<open>a\<close>.
\<close>

definition foreign_device :: sockaddr_in where
  "foreign_device = \<lparr> sin_family = 2, sin_port = 0xF601, sin_addr = 0x0200007F, sin_zero = 0 \<rparr>"

definition foreign :: "sockaddr_in \<Rightarrow> rx_event \<Rightarrow> bool" where
  "foreign a ev = (case ev of RxError \<Rightarrow> False | RxFrame src xs \<Rightarrow> src \<noteq> a)"

text \<open>The bytes an event puts into the buffer, and the buffer after a run of events.\<close>

fun payload :: "rx_event \<Rightarrow> u8 list" where
  "payload RxError = []"
| "payload (RxFrame src xs) = xs"

definition after_events :: "u8 list \<Rightarrow> rx_event list \<Rightarrow> u8 list" where
  "after_events buf evs = foldl recv_into buf (map payload evs)"

section \<open>Facts about the building blocks\<close>

lemma length_fresh: "length (fresh e n) = n"
  by (simp add: fresh_def)

lemma nth_fresh: "i < n \<Longrightarrow> fresh e n ! i = heap_junk e i"
  by (simp add: fresh_def)

lemma drop_fresh: "i < n \<Longrightarrow> drop i (fresh e n) = heap_junk e i # drop (Suc i) (fresh e n)"
  using Cons_nth_drop_Suc [of i "fresh e n"] by (simp add: length_fresh nth_fresh)

lemma list_update_Cons_numeral: "(x # xs)[numeral v := y] = x # xs[numeral v - 1 := y]"
  by (simp add: numeral_eq_Suc)

lemma unat_tid: "unat (of_nat (r mod 65535) :: u16) = r mod 65535"
proof -
  have "r mod 65535 < 65536"
    by (rule less_trans [OF mod_less_divisor]) simp_all
  then show ?thesis
    by (simp add: unat_of_nat)
qed

lemma uint_tid: "uint (of_nat (r mod 65535) :: u16) = int (r mod 65535)"
  by (simp add: uint_nat unat_tid)

lemma tid_below: "r mod 65535 \<le> (65534 :: nat)"
proof -
  have "r mod 65535 < 65535" by (rule mod_less_divisor) simp
  then show ?thesis by simp
qed

lemma SendPacket_sent:
  assumes "tx_buf_ptr e \<noteq> 0" and "7 + length pdu \<le> unat (outlen_ptr e)" and "sock_open w"
  shows "modbus_SendPacket e w (Some d) pdu =
           (int (rand_val e mod 65535),
            w\<lparr>wire := wire w @ [(addr d,
                 mbap_mem \<lparr> trans_id = of_nat (rand_val e mod 65535), protocol_id = 0,
                            len = of_nat (length pdu + 1), unit_id = 255 \<rparr> @ pdu)]\<rparr>)"
  using assms
  by (simp add: modbus_SendPacket_def modbus_ConstructPacket_def modbus_SendBlock_def Let_def uint_tid)

section \<open>Facts about receiving\<close>

lemma length_recv_into: "length (recv_into buf bs) = length buf"
  by (simp add: recv_into_def Let_def)

lemma recv_into_fits: "length bs \<le> length buf \<Longrightarrow> recv_into buf bs = bs @ drop (length bs) buf"
  by (simp add: recv_into_def Let_def)

lemma length_after_events: "length (after_events buf evs) = length buf"
  unfolding after_events_def
  by (induction evs arbitrary: buf) (simp_all add: length_recv_into)

lemma after_events_Cons:
  "after_events buf (ev # evs) = after_events (recv_into buf (payload ev)) evs"
  by (simp add: after_events_def)

lemma front2:
  assumes "2 \<le> length xs"
  shows "xs = xs ! 0 # xs ! 1 # drop 2 xs"
proof -
  from assms obtain x0 x1 ys where "xs = x0 # x1 # ys"
    by (cases xs; cases "tl xs") auto
  then show ?thesis by simp
qed

text \<open>The first two bytes of the buffer after a datagram of at least two bytes.\<close>

lemma recv_into_nth:
  assumes "2 \<le> length buf" and "2 \<le> length bs"
  shows "recv_into buf bs ! 0 = bs ! 0" and "recv_into buf bs ! Suc 0 = bs ! Suc 0"
proof -
  have ne: "bs \<noteq> []" "buf \<noteq> []"
    using assms by auto
  show "recv_into buf bs ! 0 = bs ! 0"
    using ne by (simp add: recv_into_def Let_def nth_append)
  have "1 < length (take (length buf) bs)"
    using assms by simp
  then show "recv_into buf bs ! Suc 0 = bs ! Suc 0"
    using assms(1) by (simp add: recv_into_def Let_def nth_append)
qed

text \<open>\<open>modbus_RecvPacket\<close> in terms of what \<open>modbus_RecvBlock\<close> returned.\<close>

lemma RecvPacket_after_block:
  assumes "modbus_RecvBlock e w pDevice pOutData = (Inr n, B, w')" and "2 \<le> length B"
  shows "modbus_RecvPacket e w pDevice pOutData tID =
           (if mem_u16 (B ! 0) (B ! 1) = tID then
              (if 7 \<le> n \<and> n \<le> 14 then (Inr n, move_pdu B (nat n), w')
               else (case wild_memcpy e B (word_of_int n - 7) of
                       None \<Rightarrow> (Inl MemFault, B, w')
                     | Some buf' \<Rightarrow> (Inr n, buf', w')))
            else (Inr (-1), B, w'))"
proof -
  from assms(2) obtain x0 x1 ys where B: "B = x0 # x1 # ys"
    by (cases B; cases "tl B") auto
  show ?thesis
    by (simp add: modbus_RecvPacket_def assms(1) B split: option.split)
qed

text \<open>One datagram from the device at the head of the inbox, no longer than the buffer.\<close>

lemma RecvBlock_frame:
  assumes "sock_open w" and "recvfrom_accepts_addrlen e"
    and "inbox w = RxFrame (addr d) bs # rest"
    and "length bs = n" and "n \<le> length buf"
  shows "modbus_RecvBlock e w (Some d) (Some buf) =
          (Inr (int n), bs @ drop n buf, w\<lparr>inbox := rest\<rparr>)"
  using assms by (auto simp add: modbus_RecvBlock_def recv_into_def Let_def)

lemma RecvPacket_frame:
  assumes "sock_open w" and "recvfrom_accepts_addrlen e"
    and "inbox w = RxFrame (addr d) bs # rest"
    and "length bs = n" and "7 \<le> n" and "n \<le> 14" and "n \<le> length buf"
    and "mem_u16 (bs ! 0) (bs ! 1) = tID"
  shows "modbus_RecvPacket e w (Some d) (Some buf) tID =
           (Inr (int n), drop 7 bs @ drop (n - 7) bs @ drop n buf, w\<lparr>inbox := rest\<rparr>)"
proof -
  define B where "B = bs @ drop n buf"
  have lB: "2 \<le> length B"
    using assms(4,5) by (simp add: B_def)
  have h: "B ! 0 = bs ! 0" "B ! Suc 0 = bs ! Suc 0"
    using assms(4,5) by (simp_all add: B_def nth_append)
  have mv: "move_pdu B n = drop 7 bs @ drop (n - 7) bs @ drop n buf"
    using assms(4,5) by (simp add: B_def move_pdu_def)
  from RecvPacket_after_block [OF RecvBlock_frame [OF assms(1,2,3,4,7), folded B_def] lB, of tID]
  show ?thesis
    using assms(5,6,8) by (simp add: h mv)
qed

text \<open>A failing \<open>recvfrom\<close> leaves the buffer as it was; the header is read from it all the same.\<close>

lemma recv_error:
  assumes "sock_open w" and "inbox w = RxError # rest" and "buf = b0 # b1 # bs"
    and "mem_u16 b0 b1 \<noteq> tID"
  shows "modbus_RecvPacket e w (Some d) (Some buf) tID = (Inr (-1), buf, w\<lparr>inbox := rest\<rparr>)"
  using assms by (simp add: modbus_RecvPacket_def modbus_RecvBlock_def)

text \<open>
  Where \<open>recvfrom\<close> rejects the address-length argument, a datagram of any sender ends the
  wait; with another transaction id in its first two bytes the result is -1.
\<close>

lemma RecvPacket_efault:
  assumes "sock_open w" and "\<not> recvfrom_accepts_addrlen e"
    and "inbox w = RxFrame src bs # rest"
    and "2 \<le> length buf" and "2 \<le> length bs"
    and "mem_u16 (bs ! 0) (bs ! 1) \<noteq> tID"
  shows "modbus_RecvPacket e w (Some d) (Some buf) tID =
           (Inr (-1), recv_into buf bs, w\<lparr>inbox := rest\<rparr>)"
proof -
  have blk: "modbus_RecvBlock e w (Some d) (Some buf) =
      (Inr (-1), recv_into buf bs, w\<lparr>inbox := rest\<rparr>)"
    using assms(1,2,3) by (simp add: modbus_RecvBlock_def)
  have l: "2 \<le> length (recv_into buf bs)"
    using assms(4) by (simp add: length_recv_into)
  from RecvPacket_after_block [OF blk l, of tID] assms(6)
  show ?thesis
    by (simp add: recv_into_nth [OF assms(4,5)])
qed

text \<open>
  Datagrams of other stations in front of the device's: where \<open>recvfrom\<close> delivers, the
  loop passes over them, and each leaves its bytes in the buffer.
\<close>

lemma recv_loop_skip:
  assumes "recvfrom_accepts_addrlen e"
  shows "\<forall>ev\<in>set skipped. foreign a ev \<Longrightarrow>
     recv_loop e a buf (skipped @ evs) = recv_loop e a (after_events buf skipped) evs"
proof (induction skipped arbitrary: buf)
  case Nil
  then show ?case by (simp add: after_events_def)
next
  case (Cons ev skipped)
  from Cons.prems obtain src xs where ev: "ev = RxFrame src xs" and ne: "src \<noteq> a"
    by (cases ev) (auto simp add: foreign_def)
  from Cons.prems have "\<forall>ev\<in>set skipped. foreign a ev" by simp
  from Cons.IH [OF this, of "recv_into buf xs"]
  have "recv_loop e a (recv_into buf xs) (skipped @ evs) =
        recv_loop e a (after_events (recv_into buf xs) skipped) evs" .
  moreover have "recv_loop e a buf ((ev # skipped) @ evs) =
        recv_loop e a (recv_into buf xs) (skipped @ evs)"
    using ne assms by (simp add: ev)
  ultimately show ?case
    by (simp add: after_events_Cons ev)
qed

lemma recv_loop_Inr:
  "recv_loop e a buf evs = (Inr n, buf', rest) \<Longrightarrow> 0 \<le> n \<Longrightarrow>
     recvfrom_accepts_addrlen e \<and>
     (\<exists>skipped bs. (\<forall>ev\<in>set skipped. foreign a ev) \<and>
        evs = skipped @ RxFrame a bs # rest \<and>
        n = int (min (length buf) (length bs)) \<and>
        buf' = recv_into (after_events buf skipped) bs)"
proof (induction e a buf evs arbitrary: n buf' rest rule: recv_loop.induct)
  case (1 e a buf)
  then show ?case by simp
next
  case (2 e a buf rest0)
  then show ?case by simp
next
  case (3 e a buf src bs rest0)
  from 3(2,3) have acc: "recvfrom_accepts_addrlen e"
    by (auto split: if_splits)
  show ?case
  proof (cases "src = a")
    case True
    with 3(2) acc have n: "n = int (min (length buf) (length bs))"
      and b: "buf' = recv_into buf bs" and r: "rest = rest0"
      by (auto simp add: min.commute)
    have "(\<forall>ev\<in>set []. foreign a ev) \<and>
        RxFrame src bs # rest0 = [] @ RxFrame a bs # rest \<and>
        n = int (min (length buf) (length bs)) \<and>
        buf' = recv_into (after_events buf []) bs"
      using n b r True by (simp add: after_events_def)
    with acc show ?thesis by blast
  next
    case False
    from False 3(2) acc have rl: "recv_loop e a (recv_into buf bs) rest0 = (Inr n, buf', rest)"
      by simp
    from 3(1) [OF _ False rl 3(3)] acc
    obtain skipped xs where sk: "\<forall>ev\<in>set skipped. foreign a ev"
      and ib: "rest0 = skipped @ RxFrame a xs # rest"
      and nn: "n = int (min (length (recv_into buf bs)) (length xs))"
      and bb: "buf' = recv_into (after_events (recv_into buf bs) skipped) xs"
      by auto
    have f: "\<forall>ev\<in>set (RxFrame src bs # skipped). foreign a ev"
      using sk False by (simp add: foreign_def)
    have "RxFrame src bs # rest0 = (RxFrame src bs # skipped) @ RxFrame a xs # rest \<and>
          n = int (min (length buf) (length xs)) \<and>
          buf' = recv_into (after_events buf (RxFrame src bs # skipped)) xs"
      using ib nn bb by (simp add: length_recv_into after_events_Cons)
    with f acc show ?thesis by blast
  qed
qed

lemma RecvBlock_skips:
  assumes "sock_open w" and "recvfrom_accepts_addrlen e"
    and "\<forall>ev\<in>set skipped. foreign (addr d) ev"
    and "inbox w = skipped @ RxFrame (addr d) bs # rest"
  shows "modbus_RecvBlock e w (Some d) (Some buf) =
           (Inr (int (min (length buf) (length bs))),
            recv_into (after_events buf skipped) bs, w\<lparr>inbox := rest\<rparr>)"
  using assms(1,2)
  by (simp add: modbus_RecvBlock_def assms(4) recv_loop_skip [OF assms(2,3)]
      length_after_events min.commute)

text \<open>
  The device's datagram behind datagrams of other stations, where \<open>recvfrom\<close> delivers:
  what \<open>modbus_RecvPacket\<close> returns for another transaction id and for the pending one.
\<close>

lemma RecvPacket_skips_mismatch:
  assumes "sock_open w" and "recvfrom_accepts_addrlen e"
    and "\<forall>ev\<in>set skipped. foreign (addr d) ev"
    and "inbox w = skipped @ RxFrame (addr d) bs # rest"
    and "2 \<le> length buf" and "2 \<le> length bs"
    and "mem_u16 (bs ! 0) (bs ! 1) \<noteq> tID"
  shows "modbus_RecvPacket e w (Some d) (Some buf) tID =
           (Inr (-1), recv_into (after_events buf skipped) bs, w\<lparr>inbox := rest\<rparr>)"
proof -
  have l: "2 \<le> length (after_events buf skipped)"
    using assms(5) by (simp add: length_after_events)
  then have lB: "2 \<le> length (recv_into (after_events buf skipped) bs)"
    by (simp add: length_recv_into)
  from RecvPacket_after_block [OF RecvBlock_skips [OF assms(1,2,3,4)] lB, of tID] assms(7)
  show ?thesis
    by (simp add: recv_into_nth [OF l assms(6)])
qed

lemma RecvPacket_skips_match:
  assumes "sock_open w" and "recvfrom_accepts_addrlen e"
    and "\<forall>ev\<in>set skipped. foreign (addr d) ev"
    and "inbox w = skipped @ RxFrame (addr d) bs # rest"
    and "7 \<le> min (length buf) (length bs)" and "min (length buf) (length bs) \<le> 14"
    and "mem_u16 (bs ! 0) (bs ! 1) = tID"
  shows "modbus_RecvPacket e w (Some d) (Some buf) tID =
           (Inr (int (min (length buf) (length bs))),
            move_pdu (recv_into (after_events buf skipped) bs) (min (length buf) (length bs)),
            w\<lparr>inbox := rest\<rparr>)"
proof -
  have l: "2 \<le> length (after_events buf skipped)" "2 \<le> length bs"
    using assms(5) by (simp_all add: length_after_events)
  from l(1) have lB: "2 \<le> length (recv_into (after_events buf skipped) bs)"
    by (simp add: length_recv_into)
  have c: "7 \<le> int (min (length buf) (length bs))" "int (min (length buf) (length bs)) \<le> 14"
    using assms(5,6) by linarith+
  from RecvPacket_after_block [OF RecvBlock_skips [OF assms(1,2,3,4)] lB, of tID] assms(7) c
  show ?thesis
    by (simp add: recv_into_nth [OF l])
qed

text \<open>What stands behind a length that \<open>modbus_RecvPacket\<close> returns.\<close>

lemma RecvPacket_success:
  assumes "modbus_RecvPacket e w pDevice (Some buf) tID = (Inr n, out, w')" and "0 \<le> n"
  shows "\<exists>d skipped bs. pDevice = Some d \<and> recvfrom_accepts_addrlen e \<and>
           (\<forall>ev\<in>set skipped. foreign (addr d) ev) \<and>
           inbox w = skipped @ RxFrame (addr d) bs # inbox w' \<and>
           n = int (min (length buf) (length bs)) \<and>
           (2 \<le> n \<longrightarrow> mem_u16 (bs ! 0) (bs ! 1) = tID) \<and>
           (7 \<le> n \<and> n \<le> 14 \<longrightarrow>
              out = move_pdu (recv_into (after_events buf skipped) bs) (nat n))"
proof -
  obtain r buf1 w1 where blk: "modbus_RecvBlock e w pDevice (Some buf) = (r, buf1, w1)"
    by (cases "modbus_RecvBlock e w pDevice (Some buf)") auto
  from assms(1) obtain m where r: "r = Inr m"
    unfolding modbus_RecvPacket_def blk by (cases r) auto
  from assms(1) obtain b0 b1 ys where b: "buf1 = b0 # b1 # ys"
    unfolding modbus_RecvPacket_def blk r
    by (cases buf1; cases "tl buf1") auto
  from assms have tid: "mem_u16 b0 b1 = tID" and nm: "n = m" and w': "w' = w1"
    unfolding modbus_RecvPacket_def blk r b
    by (auto split: if_splits option.splits)
  from assms have mv: "7 \<le> n \<and> n \<le> 14 \<longrightarrow> out = move_pdu buf1 (nat n)"
    unfolding modbus_RecvPacket_def blk r b
    by (auto split: if_splits option.splits)
  have m0: "0 \<le> m"
    using assms(2) nm by simp
  from blk r m0 obtain d where d: "pDevice = Some d" and so: "sock_open w"
    by (cases pDevice) (auto simp add: modbus_RecvBlock_def split: if_splits)
  obtain rest where lp: "recv_loop e (addr d) buf (inbox w) = (Inr m, buf1, rest)"
    and w1: "w1 = w\<lparr>inbox := rest\<rparr>"
    using blk r so unfolding d modbus_RecvBlock_def
    by (cases "recv_loop e (addr d) buf (inbox w)") auto
  from recv_loop_Inr [OF lp m0]
  obtain skipped bs where acc: "recvfrom_accepts_addrlen e"
    and sk: "\<forall>ev\<in>set skipped. foreign (addr d) ev"
    and ib: "inbox w = skipped @ RxFrame (addr d) bs # rest"
    and mm: "m = int (min (length buf) (length bs))"
    and bb: "buf1 = recv_into (after_events buf skipped) bs"
    by auto
  have hdr: "mem_u16 (bs ! 0) (bs ! 1) = tID" if "2 \<le> n"
  proof -
    from that nm mm have l: "2 \<le> length (after_events buf skipped)" "2 \<le> length bs"
      by (simp_all add: length_after_events)
    have x: "buf1 ! 0 = bs ! 0" "buf1 ! Suc 0 = bs ! Suc 0"
      unfolding bb by (rule recv_into_nth [OF l])+
    have y: "buf1 ! 0 = b0" "buf1 ! Suc 0 = b1"
      by (simp_all add: b)
    from x y have "bs ! 0 = b0" "bs ! Suc 0 = b1"
      by simp_all
    with tid show ?thesis by simp
  qed
  have "inbox w' = rest" by (simp add: w' w1)
  with d acc sk ib mm nm hdr mv bb show ?thesis
    by blast
qed

text \<open>Receiving touches nothing but the inbox.\<close>

lemma RecvBlock_keeps:
  assumes "modbus_RecvBlock e w pDevice pBuf = (r, buf, w')"
  shows "wire w' = wire w \<and> lock_depth w' = lock_depth w \<and> sock_open w' = sock_open w"
proof (cases "\<exists>d b. pDevice = Some d \<and> pBuf = Some b \<and> sock_open w")
  case True
  then obtain d b where "pDevice = Some d" "pBuf = Some b" "sock_open w" by blast
  with assms show ?thesis
    by (cases "recv_loop e (addr d) b (inbox w)") (auto simp add: modbus_RecvBlock_def)
next
  case False
  with assms have "w' = w"
    by (auto simp add: modbus_RecvBlock_def split: option.splits if_splits)
  then show ?thesis by simp
qed

lemma RecvPacket_keeps:
  assumes "modbus_RecvPacket e w pDevice pBuf tID = (r, buf, w')"
  shows "wire w' = wire w \<and> lock_depth w' = lock_depth w \<and> sock_open w' = sock_open w"
proof -
  obtain r1 buf1 w1 where blk: "modbus_RecvBlock e w pDevice pBuf = (r1, buf1, w1)"
    by (cases "modbus_RecvBlock e w pDevice pBuf") auto
  from assms have "w' = w1"
    unfolding modbus_RecvPacket_def blk
    by (auto split: sum.splits list.splits if_splits option.splits)
  with RecvBlock_keeps [OF blk] show ?thesis by simp
qed

section \<open>Runs of the operations in the concrete installation\<close>

lemma example_env_fields:
  "rand_val example_env = 0x1234" "tx_buf_ptr example_env = 0x1000"
  "rx_buf_ptr example_env = 0x2000" "outlen_ptr example_env = 0x7FFC0000"
  "heap_junk example_env i = 0xAA" "pad_junk example_env = 0" "stale_ret example_env = 0"
  "recvfrom_accepts_addrlen example_env" "wild_memcpy example_env b n = None"
  by (simp_all add: example_env_def)

lemma example_connect:
  "modbus_ConnectDevice (example_world evs) (Some example_device) =
     \<lparr> sock_open = True, lock_depth = 1, wire = [], inbox = evs \<rparr>"
  by (simp add: modbus_ConnectDevice_def example_world_def)

lemma example_send:
  assumes "length pdu = 6"
  shows "modbus_SendPacket example_env \<lparr> sock_open = True, lock_depth = k, wire = [], inbox = evs \<rparr>
            (Some example_device) pdu =
         (0x1234, \<lparr> sock_open = True, lock_depth = k,
                    wire = [(addr example_device, [0x34, 0x12, 0, 0, 7, 0, 255] @ pdu)],
                    inbox = evs \<rparr>)"
  using SendPacket_sent [of example_env pdu
      "\<lparr> sock_open = True, lock_depth = k, wire = [], inbox = evs \<rparr>" example_device] assms
  by (simp add: example_env_fields mbap_mem_def u16_mem_def)

lemma example_recv:
  assumes "length bs = n" and "7 \<le> n" and "n \<le> 14" and "n \<le> length buf"
    and "mem_u16 (bs ! 0) (bs ! 1) = tID"
  shows "modbus_RecvPacket example_env
            \<lparr> sock_open = True, lock_depth = k, wire = ws,
              inbox = RxFrame (addr example_device) bs # rest \<rparr>
            (Some example_device) (Some buf) tID =
         (Inr (int n), drop 7 bs @ drop (n - 7) bs @ drop n buf,
          \<lparr> sock_open = True, lock_depth = k, wire = ws, inbox = rest \<rparr>)"
  using RecvPacket_frame [where w = "\<lparr> sock_open = True, lock_depth = k, wire = ws,
                             inbox = RxFrame (addr example_device) bs # rest \<rparr>"
      and e = example_env and d = example_device and bs = bs and rest = rest and n = n
      and buf = buf and tID = tID] assms
  by (simp add: example_env_fields)

lemma swap16_examples:
  "swap16 0 = 0" "swap16 1 = 256" "swap16 8 = 2048" "swap16 126 = 32256"
  "swap16 10 = 2560" "swap16 1234 = 53764" "swap16 2000 = 53255"
  by (simp_all add: swap16_def)

lemma fresh_Cons2: "2 \<le> n \<Longrightarrow> fresh e n = heap_junk e 0 # heap_junk e 1 # drop 2 (fresh e n)"
  using drop_fresh [of 0 n e] drop_fresh [of 1 n e] by (simp add: numeral_2_eq_2)

lemma replicate_6: "replicate 6 x = [x, x, x, x, x, x]"
  by (simp add: numeral_eq_Suc)

lemma run_ReadCoils_exception:
  "modbus_ReadCoils example_env
     (example_world [RxFrame (addr example_device) [0x34, 0x12, 0, 0, 0, 3, 255, 0x81, 2]])
     (Some example_device) 0 8 0x3000 0x4000 =
   returns 130 \<lparr> sock_open = True, lock_depth = 1,
                  wire = [(addr example_device, [0x34, 0x12, 0, 0, 7, 0, 255, 1, 0, 0, 0, 0, 8])],
                  inbox = [] \<rparr>"
  unfolding modbus_ReadCoils_def
  by (simp add: swap16_examples example_connect example_send example_recv example_env_fields
      req_mem_def u16_mem_def mem_u16_def length_fresh returns_def)

lemma run_ReadDiscreteInputs_exception:
  "modbus_ReadDiscreteInputs example_env
     (example_world [RxFrame (addr example_device) [0x34, 0x12, 0, 0, 0, 3, 255, 0x82, 2]])
     (Some example_device) 0 8 0x3000 0x4000 =
   \<lparr> retval = Inr 0, out_bytes = [0, 0, 0, 3, 255, 0x82, 2], out_count = None,
     final = \<lparr> sock_open = True, lock_depth = 0,
               wire = [(addr example_device, [0x34, 0x12, 0, 0, 7, 0, 255, 2, 0, 0, 0, 0, 8])],
               inbox = [] \<rparr> \<rparr>"
  unfolding modbus_ReadDiscreteInputs_def
  by (simp add: swap16_examples example_connect example_send example_recv example_env_fields
      req_mem_def u16_mem_def mem_u16_def length_fresh copy_out_def modbus_DisconnectDevice_def)

lemma run_ReadHoldingRegisters_126:
  "modbus_ReadHoldingRegisters example_env
     (example_world [RxFrame (addr example_device) [0x34, 0x12, 0, 0, 0, 3, 255, 0x83, 3]])
     (Some example_device) 0 126 0x3000 0x4000 =
   returns 132 \<lparr> sock_open = True, lock_depth = 0,
                  wire = [(addr example_device, [0x34, 0x12, 0, 0, 7, 0, 255, 3, 0, 0, 0, 0, 126])],
                  inbox = [] \<rparr>"
  unfolding modbus_ReadHoldingRegisters_def
  by (simp add: swap16_examples example_connect example_send example_recv example_env_fields
      req_mem_def u16_mem_def mem_u16_def length_fresh modbus_DisconnectDevice_def returns_def)

lemma run_ReadInputRegisters_126:
  "modbus_ReadInputRegisters example_env
     (example_world [RxFrame (addr example_device) [0x34, 0x12, 0, 0, 0, 3, 255, 0x84, 3]])
     (Some example_device) 0 126 0x3000 0x4000 =
   returns 3 \<lparr> sock_open = True, lock_depth = 1,
                  wire = [(addr example_device, [0x34, 0x12, 0, 0, 7, 0, 255, 4, 0, 0, 0, 0, 126])],
                  inbox = [] \<rparr>"
  unfolding modbus_ReadInputRegisters_def
  by (simp add: swap16_examples example_connect example_send example_recv example_env_fields
      req_mem_def u16_mem_def mem_u16_def length_fresh returns_def)

lemma run_WriteSingleRegister_echo:
  "modbus_WriteSingleRegister example_env
     (example_world [RxFrame (addr example_device) [0x34, 0x12, 0, 0, 0, 6, 255, 6, 0, 10, 4, 210]])
     (Some example_device) 10 1234 =
   aborts MemFault \<lparr> sock_open = True, lock_depth = 1,
                  wire = [(addr example_device, [0x34, 0x12, 0, 0, 7, 0, 255, 6, 0, 0, 10, 4, 210])],
                  inbox = [] \<rparr>"
  unfolding modbus_WriteSingleRegister_def
  by (simp add: swap16_examples example_connect example_send example_env_fields
      req_mem_def u16_mem_def mem_u16_def aborts_def replicate_6
      modbus_RecvPacket_def modbus_RecvBlock_def recv_into_def)

lemma run_WriteSingleRegister_no_reply:
  "modbus_WriteSingleRegister example_env (example_world [RxError]) (Some example_device) 0 0 =
   returns 0 \<lparr> sock_open = True, lock_depth = 0,
                wire = [(addr example_device, [0x34, 0x12, 0, 0, 7, 0, 255, 6, 0, 0, 0, 0, 0])],
                inbox = [] \<rparr>"
  unfolding modbus_WriteSingleRegister_def
  by (simp add: swap16_examples example_connect example_send example_env_fields
      req_mem_def u16_mem_def mem_u16_def returns_def replicate_6
      modbus_RecvPacket_def modbus_RecvBlock_def recv_into_def modbus_DisconnectDevice_def)

lemma run_WriteSingleRegister_recv_failure:
  "modbus_WriteSingleRegister example_env (example_world [RxError]) (Some example_device) 10 1234 =
   returns (-1) \<lparr> sock_open = True, lock_depth = 1,
                wire = [(addr example_device, [0x34, 0x12, 0, 0, 7, 0, 255, 6, 0, 0, 10, 4, 210])],
                inbox = [] \<rparr>"
  unfolding modbus_WriteSingleRegister_def
  by (simp add: swap16_examples example_connect example_send example_env_fields
      req_mem_def u16_mem_def mem_u16_def returns_def replicate_6
      modbus_RecvPacket_def modbus_RecvBlock_def recv_into_def modbus_DisconnectDevice_def)

lemma run_ReadCoils_recv_failure:
  "modbus_ReadCoils example_env (example_world [RxError]) (Some example_device) 0 8 0x3000 0x4000 =
   returns (-1) \<lparr> sock_open = True, lock_depth = 1,
                  wire = [(addr example_device, [0x34, 0x12, 0, 0, 7, 0, 255, 1, 0, 0, 0, 0, 8])],
                  inbox = [] \<rparr>"
proof -
  have rcv: "modbus_RecvPacket example_env
               \<lparr> sock_open = True, lock_depth = k, wire = ws, inbox = [RxError] \<rparr>
               (Some example_device) (Some (fresh example_env 2050)) 0x1234 =
             (Inr (-1), fresh example_env 2050,
              \<lparr> sock_open = True, lock_depth = k, wire = ws, inbox = [] \<rparr>)" for ws k
    using recv_error [where w = "\<lparr> sock_open = True, lock_depth = k, wire = ws, inbox = [RxError] \<rparr>"
        and rest = "[]" and buf = "fresh example_env 2050" and ?b0.0 = "0xAA" and ?b1.0 = "0xAA"
        and bs = "drop 2 (fresh example_env 2050)" and tID = "0x1234"
        and d = example_device and e = example_env]
      fresh_Cons2 [of 2050 example_env]
    by (simp add: example_env_fields mem_u16_def)
  show ?thesis
    unfolding modbus_ReadCoils_def
    by (simp add: swap16_examples example_connect example_send rcv example_env_fields
      req_mem_def u16_mem_def returns_def)
qed

lemma run_ReadHoldingRegisters_one:
  "modbus_ReadHoldingRegisters example_env
     (example_world [RxFrame (addr example_device) [0x34, 0x12, 0, 0, 0, 5, 255, 3, 2, 0x12, 0x34]])
     (Some example_device) 0 1 0x3000 0x4000 =
   \<lparr> retval = Inr 0, out_bytes = [0x12, 0x34, 5, 0, 255, 3, 0x12, 2, 0x34], out_count = Some 1,
     final = \<lparr> sock_open = True, lock_depth = 0,
               wire = [(addr example_device, [0x34, 0x12, 0, 0, 7, 0, 255, 3, 0, 0, 0, 0, 1])],
               inbox = [] \<rparr> \<rparr>"
proof -
  define T where "T = drop 22 (fresh example_env 514)"
  have jnk: "drop 11 (fresh example_env 514) =
      [0xAA, 0xAA, 0xAA, 0xAA, 0xAA, 0xAA, 0xAA, 0xAA, 0xAA, 0xAA, 0xAA] @ T"
    by (simp add: drop_fresh T_def example_env_fields)
  have lenT: "length T = 492"
    by (simp add: T_def length_fresh)
  show ?thesis
    unfolding modbus_ReadHoldingRegisters_def
    by (simp add: swap16_examples example_connect example_send example_recv example_env_fields
      req_mem_def u16_mem_def mem_u16_def length_fresh modbus_DisconnectDevice_def
      jnk lenT store_u16_def load_u16_def list_update_Cons_numeral swap16_def copy_out_def)
qed

lemma run_ReadInputRegisters_one:
  "modbus_ReadInputRegisters example_env
     (example_world [RxFrame (addr example_device) [0x34, 0x12, 0, 0, 0, 5, 255, 4, 2, 0x12, 0x34]])
     (Some example_device) 0 1 0x3000 0x4000 =
   \<lparr> retval = Inr 0, out_bytes = [0, 0x34, 0, 5, 0, 4, 0, 0x12, 0], out_count = None,
     final = \<lparr> sock_open = True, lock_depth = 1,
               wire = [(addr example_device, [0x34, 0x12, 0, 0, 7, 0, 255, 4, 0, 0, 0, 0, 1])],
               inbox = [] \<rparr> \<rparr>"
  unfolding modbus_ReadInputRegisters_def
  by (simp add: swap16_examples example_connect example_send example_recv example_env_fields
      req_mem_def u16_mem_def mem_u16_def length_fresh
      list_update_Cons_numeral swap16_on_u8_def copy_out_def)

section \<open>Range checks before I/O\<close>

text \<open>
  C1. The claim: a register count outside 1 to 125, such as \<open>nregs = 0x7E\<close>, is rejected
  before any byte is sent. The source tests no count in \<open>modbus_ReadHoldingRegisters\<close> and
  \<open>modbus_ReadInputRegisters\<close>: with \<open>nregs = 126\<close> both put the request for 126
  registers on the wire and wait for the answer. Here the device answers with exception 3
  (illegal data value); \<open>modbus_ReadHoldingRegisters\<close> returns 132 and
  \<open>modbus_ReadInputRegisters\<close> returns 3, each after its request has left.
\<close>

theorem register_count_126_is_sent:
  "retval (modbus_ReadHoldingRegisters example_env
       (example_world [RxFrame (addr example_device) [0x34, 0x12, 0, 0, 0, 3, 255, 0x83, 3]])
       (Some example_device) 0 126 0x3000 0x4000) = Inr 132 \<and>
   wire (final (modbus_ReadHoldingRegisters example_env
       (example_world [RxFrame (addr example_device) [0x34, 0x12, 0, 0, 0, 3, 255, 0x83, 3]])
       (Some example_device) 0 126 0x3000 0x4000)) =
     [(addr example_device, [0x34, 0x12, 0, 0, 7, 0, 255, 3, 0, 0, 0, 0, 126])] \<and>
   retval (modbus_ReadInputRegisters example_env
       (example_world [RxFrame (addr example_device) [0x34, 0x12, 0, 0, 0, 3, 255, 0x84, 3]])
       (Some example_device) 0 126 0x3000 0x4000) = Inr 3 \<and>
   wire (final (modbus_ReadInputRegisters example_env
       (example_world [RxFrame (addr example_device) [0x34, 0x12, 0, 0, 0, 3, 255, 0x84, 3]])
       (Some example_device) 0 126 0x3000 0x4000)) =
     [(addr example_device, [0x34, 0x12, 0, 0, 7, 0, 255, 4, 0, 0, 0, 0, 126])]"
  by (simp add: run_ReadHoldingRegisters_126 run_ReadInputRegisters_126 returns_def)

section \<open>The device lock\<close>

text \<open>
  C2. The claim: every exit path after the lock was taken releases it. In the source
  \<open>modbus_ReadInputRegisters\<close> never calls \<open>modbus_DisconnectDevice\<close>, and the other
  operations return early without it. The device is still locked (depth 1) after: a
  successful \<open>modbus_ReadInputRegisters\<close>; a \<open>modbus_ReadInputRegisters\<close> answered by an
  exception; a \<open>modbus_ReadCoils\<close> answered by an exception; a \<open>modbus_ReadCoils\<close> whose
  receive failed; and a \<open>modbus_WriteSingleRegister\<close> that returns -1 from its comparison
  of request and response.
\<close>

theorem device_left_locked:
  "retval (modbus_ReadInputRegisters example_env
       (example_world [RxFrame (addr example_device) [0x34, 0x12, 0, 0, 0, 5, 255, 4, 2, 0x12, 0x34]])
       (Some example_device) 0 1 0x3000 0x4000) = Inr 0 \<and>
   lock_depth (final (modbus_ReadInputRegisters example_env
       (example_world [RxFrame (addr example_device) [0x34, 0x12, 0, 0, 0, 5, 255, 4, 2, 0x12, 0x34]])
       (Some example_device) 0 1 0x3000 0x4000)) = 1 \<and>
   lock_depth (final (modbus_ReadInputRegisters example_env
       (example_world [RxFrame (addr example_device) [0x34, 0x12, 0, 0, 0, 3, 255, 0x84, 3]])
       (Some example_device) 0 126 0x3000 0x4000)) = 1 \<and>
   retval (modbus_ReadCoils example_env
       (example_world [RxFrame (addr example_device) [0x34, 0x12, 0, 0, 0, 3, 255, 0x81, 2]])
       (Some example_device) 0 8 0x3000 0x4000) = Inr 130 \<and>
   lock_depth (final (modbus_ReadCoils example_env
       (example_world [RxFrame (addr example_device) [0x34, 0x12, 0, 0, 0, 3, 255, 0x81, 2]])
       (Some example_device) 0 8 0x3000 0x4000)) = 1 \<and>
   retval (modbus_ReadCoils example_env (example_world [RxError])
       (Some example_device) 0 8 0x3000 0x4000) = Inr (-1) \<and>
   lock_depth (final (modbus_ReadCoils example_env (example_world [RxError])
       (Some example_device) 0 8 0x3000 0x4000)) = 1 \<and>
   retval (modbus_WriteSingleRegister example_env (example_world [RxError])
       (Some example_device) 10 1234) = Inr (-1) \<and>
   lock_depth (final (modbus_WriteSingleRegister example_env (example_world [RxError])
       (Some example_device) 10 1234)) = 1"
  by (simp add: run_ReadInputRegisters_one run_ReadInputRegisters_126 run_ReadCoils_exception
      run_ReadCoils_recv_failure run_WriteSingleRegister_recv_failure returns_def)

text \<open>
  The comparison \<open>packet.value != res_packet.value || packet.addr != res_packet.addr\<close> at
  work: the request (10, 1234) differs from the cleared response struct, the operation
  returns -1 and the lock stays.
\<close>

theorem device_left_locked_witness:
  "retval (modbus_WriteSingleRegister example_env (example_world [RxError])
       (Some example_device) 10 1234) = Inr (-1) \<and>
   lock_depth (final (modbus_WriteSingleRegister example_env (example_world [RxError])
       (Some example_device) 10 1234)) = 1"
  using device_left_locked by blast

section \<open>Waiting for the response\<close>

text \<open>
  C3, as amended. Where \<open>recvfrom\<close> delivers datagrams with their sender:
  \<open>modbus_RecvPacket\<close> returns a length (a value from 0 on) only for a datagram that came
  from the device's address, after datagrams from other addresses only; the length is the
  number of bytes received, and for a datagram of at least two bytes its first two bytes,
  read in host order, are the pending transaction id. Datagrams from other addresses are
  passed over without an error and the wait goes on. The first datagram from the device's
  address ends the wait and the datagrams behind it stay in the inbox: with another
  transaction id the result is -1, an error; with the pending one and 7 to 14 bytes the
  result is the length, the bytes behind the header are moved to the front of the buffer,
  and behind them the buffer keeps what the last datagrams left there, those passed over
  included. Where \<open>recvfrom\<close> rejects the address-length argument of the source, a
  datagram of any sender with another transaction id ends the wait with -1 as well.
\<close>

theorem RecvPacket_matching:
  "(modbus_RecvPacket e w pDevice (Some buf) tID = (Inr n, out, w') \<and> 0 \<le> n \<longrightarrow>
      (\<exists>d skipped bs. pDevice = Some d \<and> recvfrom_accepts_addrlen e \<and>
         (\<forall>ev\<in>set skipped. foreign (addr d) ev) \<and>
         inbox w = skipped @ RxFrame (addr d) bs # inbox w' \<and>
         n = int (min (length buf) (length bs)) \<and>
         (2 \<le> n \<longrightarrow> mem_u16 (bs ! 0) (bs ! 1) = tID) \<and>
         (7 \<le> n \<and> n \<le> 14 \<longrightarrow>
            out = move_pdu (recv_into (after_events buf skipped) bs) (nat n)))) \<and>
   (sock_open w \<and> recvfrom_accepts_addrlen e \<and> (\<forall>ev\<in>set skipped. foreign (addr d) ev) \<and>
    inbox w = skipped @ RxFrame (addr d) bs # rest \<and> 2 \<le> length buf \<and> 2 \<le> length bs \<and>
    mem_u16 (bs ! 0) (bs ! 1) \<noteq> tID \<longrightarrow>
      modbus_RecvPacket e w (Some d) (Some buf) tID =
        (Inr (-1), recv_into (after_events buf skipped) bs, w\<lparr>inbox := rest\<rparr>)) \<and>
   (sock_open w \<and> recvfrom_accepts_addrlen e \<and> (\<forall>ev\<in>set skipped. foreign (addr d) ev) \<and>
    inbox w = skipped @ RxFrame (addr d) bs # rest \<and>
    7 \<le> min (length buf) (length bs) \<and> min (length buf) (length bs) \<le> 14 \<and>
    mem_u16 (bs ! 0) (bs ! 1) = tID \<longrightarrow>
      modbus_RecvPacket e w (Some d) (Some buf) tID =
        (Inr (int (min (length buf) (length bs))),
         move_pdu (recv_into (after_events buf skipped) bs) (min (length buf) (length bs)),
         w\<lparr>inbox := rest\<rparr>)) \<and>
   (sock_open w \<and> \<not> recvfrom_accepts_addrlen e \<and> inbox w = RxFrame src bs # rest \<and>
    2 \<le> length buf \<and> 2 \<le> length bs \<and> mem_u16 (bs ! 0) (bs ! 1) \<noteq> tID \<longrightarrow>
      modbus_RecvPacket e w (Some d) (Some buf) tID =
        (Inr (-1), recv_into buf bs, w\<lparr>inbox := rest\<rparr>))"
  using RecvPacket_success [of e w pDevice buf tID n out w']
    RecvPacket_skips_mismatch [of w e skipped d bs rest buf tID]
    RecvPacket_skips_match [of w e skipped d bs rest buf tID]
    RecvPacket_efault [of w e src bs rest buf tID d]
  by blast

text \<open>
  The theorem at work. The pending transaction id is \<open>0x1234\<close> and the buffer has 12
  bytes. First: a datagram of 11 bytes from another station, then the awaited response of
  9 bytes, then a later datagram of the device; 9 is returned, and the last bytes
  \<open>BE EF\<close> of the other station's datagram are still in the buffer. Second: the same with
  the device's two datagrams in the other order; -1 is returned and the awaited response
  stays unread. Third: \<open>recvfrom\<close> rejects the address-length argument; the other
  station's datagram ends the wait with -1.
\<close>

theorem RecvPacket_matching_witness:
  "modbus_RecvPacket example_env
      (example_world [RxFrame foreign_device [0x66, 0x55, 0, 0, 0, 5, 255, 3, 2, 0xBE, 0xEF],
                      RxFrame (addr example_device) [0x34, 0x12, 0, 0, 0, 3, 255, 0x81, 2],
                      RxFrame (addr example_device) [0x35, 0x12, 0, 0, 0, 3, 255, 0x81, 2]])
      (Some example_device) (Some [0, 0, 0, 0, 0, 0, 0, 0, 0, 0, 0, 0]) 0x1234 =
     (Inr 9, [0x81, 2, 0, 0, 0, 3, 255, 0x81, 2, 0xBE, 0xEF, 0],
      example_world [RxFrame (addr example_device) [0x35, 0x12, 0, 0, 0, 3, 255, 0x81, 2]]) \<and>
   (\<exists>d skipped bs. Some example_device = Some d \<and> recvfrom_accepts_addrlen example_env \<and>
      (\<forall>ev\<in>set skipped. foreign (addr d) ev) \<and>
      inbox (example_world [RxFrame foreign_device [0x66, 0x55, 0, 0, 0, 5, 255, 3, 2, 0xBE, 0xEF],
                      RxFrame (addr example_device) [0x34, 0x12, 0, 0, 0, 3, 255, 0x81, 2],
                      RxFrame (addr example_device) [0x35, 0x12, 0, 0, 0, 3, 255, 0x81, 2]]) =
        skipped @ RxFrame (addr d) bs #
          inbox (example_world [RxFrame (addr example_device) [0x35, 0x12, 0, 0, 0, 3, 255, 0x81, 2]]) \<and>
      (9 :: int) = int (min (length [0, 0, 0, 0, 0, 0, 0, 0, 0, 0, 0, 0 :: u8]) (length bs)) \<and>
      mem_u16 (bs ! 0) (bs ! 1) = 0x1234) \<and>
   modbus_RecvPacket example_env
      (example_world [RxFrame foreign_device [0x66, 0x55, 0, 0, 0, 5, 255, 3, 2, 0xBE, 0xEF],
                      RxFrame (addr example_device) [0x35, 0x12, 0, 0, 0, 3, 255, 0x81, 2],
                      RxFrame (addr example_device) [0x34, 0x12, 0, 0, 0, 3, 255, 0x81, 2]])
      (Some example_device) (Some [0, 0, 0, 0, 0, 0, 0, 0, 0, 0, 0, 0]) 0x1234 =
     (Inr (-1), [0x35, 0x12, 0, 0, 0, 3, 255, 0x81, 2, 0xBE, 0xEF, 0],
      example_world [RxFrame (addr example_device) [0x34, 0x12, 0, 0, 0, 3, 255, 0x81, 2]]) \<and>
   modbus_RecvPacket efault_env
      (example_world [RxFrame foreign_device [0x66, 0x55, 0, 0, 0, 5, 255, 3, 2, 0xBE, 0xEF],
                      RxFrame (addr example_device) [0x34, 0x12, 0, 0, 0, 3, 255, 0x81, 2]])
      (Some example_device) (Some [0, 0, 0, 0, 0, 0, 0, 0, 0, 0, 0, 0]) 0x1234 =
     (Inr (-1), [0x66, 0x55, 0, 0, 0, 5, 255, 3, 2, 0xBE, 0xEF, 0],
      example_world [RxFrame (addr example_device) [0x34, 0x12, 0, 0, 0, 3, 255, 0x81, 2]])"
proof -
  define F where "F = RxFrame foreign_device [0x66, 0x55, 0, 0, 0, 5, 255, 3, 2, 0xBE, 0xEF]"
  define M where "M = RxFrame (addr example_device) [0x34, 0x12, 0, 0, 0, 3, 255, 0x81, 2]"
  define X where "X = RxFrame (addr example_device) [0x35, 0x12, 0, 0, 0, 3, 255, 0x81, 2]"
  define Z where "Z = [0, 0, 0, 0, 0, 0, 0, 0, 0, 0, 0, 0 :: u8]"
  have f: "\<forall>ev\<in>set [F]. foreign (addr example_device) ev"
    by (simp add: F_def foreign_def foreign_device_def example_device_def)
  have s: "sock_open (example_world evs)" "inbox (example_world evs) = evs"
    "(example_world evs)\<lparr>inbox := evs'\<rparr> = example_world evs'" for evs evs'
    by (simp_all add: example_world_def)
  have a: "recvfrom_accepts_addrlen example_env" "\<not> recvfrom_accepts_addrlen efault_env"
    by (simp_all add: example_env_def efault_env_def)
  have ev: "after_events Z [F] = [0x66, 0x55, 0, 0, 0, 5, 255, 3, 2, 0xBE, 0xEF, 0]"
    by (simp add: after_events_def recv_into_def F_def Z_def)
  have lz: "length Z = 12"
    by (simp add: Z_def)
  have r1: "modbus_RecvPacket example_env (example_world [F, M, X]) (Some example_device)
              (Some Z) 0x1234 =
            (Inr 9, [0x81, 2, 0, 0, 0, 3, 255, 0x81, 2, 0xBE, 0xEF, 0], example_world [X])"
    using RecvPacket_matching [where e = example_env and w = "example_world [F, M, X]"
        and skipped = "[F]" and d = example_device
        and bs = "[0x34, 0x12, 0, 0, 0, 3, 255, 0x81, 2]" and rest = "[X]"
        and buf = Z and tID = "0x1234"] f a
    by (simp add: s ev lz M_def [symmetric] recv_into_def move_pdu_def mem_u16_def)
  have r0: "\<exists>d skipped bs. Some example_device = Some d \<and> recvfrom_accepts_addrlen example_env \<and>
      (\<forall>ev\<in>set skipped. foreign (addr d) ev) \<and>
      inbox (example_world [F, M, X]) = skipped @ RxFrame (addr d) bs # inbox (example_world [X]) \<and>
      (9 :: int) = int (min (length Z) (length bs)) \<and>
      mem_u16 (bs ! 0) (bs ! 1) = 0x1234"
    using RecvPacket_matching [where e = example_env and w = "example_world [F, M, X]"
        and pDevice = "Some example_device" and buf = Z and tID = "0x1234" and n = 9
        and out = "[0x81, 2, 0, 0, 0, 3, 255, 0x81, 2, 0xBE, 0xEF, 0]"
        and w' = "example_world [X]"] r1
    by simp blast
  have r2: "modbus_RecvPacket example_env (example_world [F, X, M]) (Some example_device)
              (Some Z) 0x1234 =
            (Inr (-1), [0x35, 0x12, 0, 0, 0, 3, 255, 0x81, 2, 0xBE, 0xEF, 0], example_world [M])"
    using RecvPacket_matching [where e = example_env and w = "example_world [F, X, M]"
        and skipped = "[F]" and d = example_device
        and bs = "[0x35, 0x12, 0, 0, 0, 3, 255, 0x81, 2]" and rest = "[M]"
        and buf = Z and tID = "0x1234"] f a
    by (simp add: s ev lz X_def [symmetric] recv_into_def mem_u16_def)
  have r3: "modbus_RecvPacket efault_env (example_world [F, M]) (Some example_device)
              (Some Z) 0x1234 =
            (Inr (-1), [0x66, 0x55, 0, 0, 0, 5, 255, 3, 2, 0xBE, 0xEF, 0], example_world [M])"
    using RecvPacket_matching [where e = efault_env and w = "example_world [F, M]"
        and src = foreign_device and d = example_device
        and bs = "[0x66, 0x55, 0, 0, 0, 5, 255, 3, 2, 0xBE, 0xEF]" and rest = "[M]"
        and buf = Z and tID = "0x1234"] a
    by (simp add: s lz F_def [symmetric] recv_into_def mem_u16_def Z_def)
  from r1 r0 r2 r3 show ?thesis
    unfolding F_def M_def X_def Z_def by blast
qed

text \<open>
  Against the claim as stated: the first datagram from the device carries another
  transaction id, the awaited one is right behind it. \<open>modbus_RecvPacket\<close> returns -1 and
  leaves the awaited datagram unread, whether \<open>recvfrom\<close> delivers the datagram or rejects
  the address-length argument.
\<close>

theorem RecvPacket_wrong_id_is_error:
  "fst (modbus_RecvPacket example_env
      (example_world [RxFrame (addr example_device) [0x35, 0x12, 0, 0, 0, 3, 255, 0x81, 2],
                      RxFrame (addr example_device) [0x34, 0x12, 0, 0, 0, 3, 255, 0x81, 2]])
      (Some example_device) (Some [0, 0, 0, 0, 0, 0, 0, 0, 0, 0, 0, 0]) 0x1234) = Inr (-1) \<and>
   inbox (snd (snd (modbus_RecvPacket example_env
      (example_world [RxFrame (addr example_device) [0x35, 0x12, 0, 0, 0, 3, 255, 0x81, 2],
                      RxFrame (addr example_device) [0x34, 0x12, 0, 0, 0, 3, 255, 0x81, 2]])
      (Some example_device) (Some [0, 0, 0, 0, 0, 0, 0, 0, 0, 0, 0, 0]) 0x1234)))
     = [RxFrame (addr example_device) [0x34, 0x12, 0, 0, 0, 3, 255, 0x81, 2]] \<and>
   fst (modbus_RecvPacket efault_env
      (example_world [RxFrame (addr example_device) [0x35, 0x12, 0, 0, 0, 3, 255, 0x81, 2],
                      RxFrame (addr example_device) [0x34, 0x12, 0, 0, 0, 3, 255, 0x81, 2]])
      (Some example_device) (Some [0, 0, 0, 0, 0, 0, 0, 0, 0, 0, 0, 0]) 0x1234) = Inr (-1) \<and>
   inbox (snd (snd (modbus_RecvPacket efault_env
      (example_world [RxFrame (addr example_device) [0x35, 0x12, 0, 0, 0, 3, 255, 0x81, 2],
                      RxFrame (addr example_device) [0x34, 0x12, 0, 0, 0, 3, 255, 0x81, 2]])
      (Some example_device) (Some [0, 0, 0, 0, 0, 0, 0, 0, 0, 0, 0, 0]) 0x1234)))
     = [RxFrame (addr example_device) [0x34, 0x12, 0, 0, 0, 3, 255, 0x81, 2]]"
  using RecvPacket_skips_mismatch [where e = example_env
      and w = "example_world [RxFrame (addr example_device) [0x35, 0x12, 0, 0, 0, 3, 255, 0x81, 2],
                      RxFrame (addr example_device) [0x34, 0x12, 0, 0, 0, 3, 255, 0x81, 2]]"
      and skipped = "[]" and d = example_device and bs = "[0x35, 0x12, 0, 0, 0, 3, 255, 0x81, 2]"
      and rest = "[RxFrame (addr example_device) [0x34, 0x12, 0, 0, 0, 3, 255, 0x81, 2]]"
      and buf = "[0, 0, 0, 0, 0, 0, 0, 0, 0, 0, 0, 0]" and tID = "0x1234"]
    RecvPacket_efault [where e = efault_env
      and w = "example_world [RxFrame (addr example_device) [0x35, 0x12, 0, 0, 0, 3, 255, 0x81, 2],
                      RxFrame (addr example_device) [0x34, 0x12, 0, 0, 0, 3, 255, 0x81, 2]]"
      and src = "addr example_device" and d = example_device
      and bs = "[0x35, 0x12, 0, 0, 0, 3, 255, 0x81, 2]"
      and rest = "[RxFrame (addr example_device) [0x34, 0x12, 0, 0, 0, 3, 255, 0x81, 2]]"
      and buf = "[0, 0, 0, 0, 0, 0, 0, 0, 0, 0, 0, 0]" and tID = "0x1234"]
  by (simp add: example_world_def example_env_def efault_env_def mem_u16_def)

section \<open>Write Single Register\<close>

text \<open>
  C4. The claim: \<open>modbus_WriteSingleRegister\<close> returns success exactly when the response
  echoes address and value of the request. In the source the response is received into a
  struct of 6 bytes, one less than the MBAP header alone, so a response with the pending
  transaction id makes \<open>modbus_RecvPacket\<close> call \<open>memcpy\<close> with the size \<open>6 - 7\<close> taken as a
  \<open>size_t\<close>: for the request (10, 1234) answered by the echo (10, 1234) the call ends in a
  memory fault (in \<open>example_env\<close>, where such a \<open>memcpy\<close> does not come back), not in 0. And
  because the result of \<open>modbus_RecvPacket\<close> is ignored, the request (0, 0) "succeeds"
  against the cleared struct when nothing was received at all.
\<close>

theorem WriteSingleRegister_echo_faults:
  "retval (modbus_WriteSingleRegister example_env
       (example_world [RxFrame (addr example_device) [0x34, 0x12, 0, 0, 0, 6, 255, 6, 0, 10, 4, 210]])
       (Some example_device) 10 1234) = Inl MemFault \<and>
   retval (modbus_WriteSingleRegister example_env (example_world [RxError])
       (Some example_device) 0 0) = Inr 0"
  by (simp add: run_WriteSingleRegister_echo run_WriteSingleRegister_no_reply returns_def aborts_def)

text \<open>
  The comparison at work where neither field differs: request (0, 0) against the cleared
  response struct.
\<close>

theorem WriteSingleRegister_echo_faults_witness:
  "retval (modbus_WriteSingleRegister example_env (example_world [RxError])
       (Some example_device) 0 0) = Inr 0"
  using WriteSingleRegister_echo_faults by blast

section \<open>Register values\<close>

text \<open>
  C5. The claim: a successful register read stores exactly the \<open>n\<close> register values of the
  response, converted to host order. One register is requested and the device answers with
  the value \<open>0x1234\<close> (bytes \<open>0x12 0x34\<close>). \<open>modbus_ReadHoldingRegisters\<close> swaps the 16-bit
  elements 2, 4, 6, ... of the buffer, which are the bytes from offset 4 on, so the first
  register stays as received and the caller reads \<open>0x3412\<close>; \<open>modbus_ReadInputRegisters\<close>
  applies the macro to single bytes, which clears every other byte, and the caller reads
  \<open>0x3400\<close>. Both store 9 bytes, the length of the whole frame less 2, where one register
  takes 2.
\<close>

theorem register_values_not_delivered:
  "retval (modbus_ReadHoldingRegisters example_env
       (example_world [RxFrame (addr example_device) [0x34, 0x12, 0, 0, 0, 5, 255, 3, 2, 0x12, 0x34]])
       (Some example_device) 0 1 0x3000 0x4000) = Inr 0 \<and>
   out_bytes (modbus_ReadHoldingRegisters example_env
       (example_world [RxFrame (addr example_device) [0x34, 0x12, 0, 0, 0, 5, 255, 3, 2, 0x12, 0x34]])
       (Some example_device) 0 1 0x3000 0x4000) = [0x12, 0x34, 5, 0, 255, 3, 0x12, 2, 0x34] \<and>
   mem_u16s (out_bytes (modbus_ReadHoldingRegisters example_env
       (example_world [RxFrame (addr example_device) [0x34, 0x12, 0, 0, 0, 5, 255, 3, 2, 0x12, 0x34]])
       (Some example_device) 0 1 0x3000 0x4000)) = [0x3412, 0x0005, 0x03FF, 0x0212] \<and>
   retval (modbus_ReadInputRegisters example_env
       (example_world [RxFrame (addr example_device) [0x34, 0x12, 0, 0, 0, 5, 255, 4, 2, 0x12, 0x34]])
       (Some example_device) 0 1 0x3000 0x4000) = Inr 0 \<and>
   out_bytes (modbus_ReadInputRegisters example_env
       (example_world [RxFrame (addr example_device) [0x34, 0x12, 0, 0, 0, 5, 255, 4, 2, 0x12, 0x34]])
       (Some example_device) 0 1 0x3000 0x4000) = [0, 0x34, 0, 5, 0, 4, 0, 0x12, 0] \<and>
   mem_u16s (out_bytes (modbus_ReadInputRegisters example_env
       (example_world [RxFrame (addr example_device) [0x34, 0x12, 0, 0, 0, 5, 255, 4, 2, 0x12, 0x34]])
       (Some example_device) 0 1 0x3000 0x4000)) = [0x3400, 0x0500, 0x0400, 0x1200]"
  by (simp add: run_ReadHoldingRegisters_one run_ReadInputRegisters_one mem_u16_def)

section \<open>Exception responses\<close>

text \<open>
  C6. The claim: a response whose function code is the sent one with bit \<open>0x80\<close> set makes
  the read operation return the exception code, the second byte of the PDU. The device
  answers with exception 2 (illegal data address). \<open>modbus_ReadCoils\<close> returns
  \<open>*(uint8_t*)pBuf+1\<close>, the function code plus one, which is 130; and
  \<open>modbus_ReadDiscreteInputs\<close> compares a cast of the pointer with \<open>0x82\<close>, does not see
  the exception and returns 0 with bytes of the frame as data.
\<close>

theorem exception_code_not_returned:
  "retval (modbus_ReadCoils example_env
       (example_world [RxFrame (addr example_device) [0x34, 0x12, 0, 0, 0, 3, 255, 0x81, 2]])
       (Some example_device) 0 8 0x3000 0x4000) = Inr 130 \<and>
   retval (modbus_ReadDiscreteInputs example_env
       (example_world [RxFrame (addr example_device) [0x34, 0x12, 0, 0, 0, 3, 255, 0x82, 2]])
       (Some example_device) 0 8 0x3000 0x4000) = Inr 0 \<and>
   out_bytes (modbus_ReadDiscreteInputs example_env
       (example_world [RxFrame (addr example_device) [0x34, 0x12, 0, 0, 0, 3, 255, 0x82, 2]])
       (Some example_device) 0 8 0x3000 0x4000) = [0, 0, 0, 3, 255, 0x82, 2]"
  by (simp add: run_ReadCoils_exception run_ReadDiscreteInputs_exception returns_def)

section \<open>The MBAP header on the wire\<close>

text \<open>
  C7. The claim: the 7 header bytes carry transaction id, protocol id and length in
  big-endian order, with protocol id 0, length \<open>nLen + 1\<close> and unit id 255. The source
  copies the header struct as it lies in memory. For a PDU of 6 bytes and the transaction
  id \<open>0x1234\<close> the header is \<open>34 12 00 00 07 00 FF\<close>: the values are as claimed, but
  transaction id and length go out low byte first, where big-endian order is
  \<open>12 34 00 00 00 07 FF\<close>.
\<close>

theorem mbap_header_host_order:
  "modbus_ConstructPacket example_env (Some [6, 0, 0, 10, 4, 210]) 0x1000 0x7FFC0000
     = Some ([0x34, 0x12, 0, 0, 7, 0, 255, 6, 0, 0, 10, 4, 210], 0x1234) \<and>
   [0x34, 0x12, 0, 0, 7, 0, 255] \<noteq> [0x12, 0x34, 0, 0, 0, 7, 255 :: u8]"
  by (simp add: modbus_ConstructPacket_def example_env_def mbap_mem_def u16_mem_def)

section \<open>Unwrapping a frame\<close>

text \<open>
  C8, as amended. \<open>modbus_RecvPacket\<close> does not look at the length field of the header.
  Where \<open>recvfrom\<close> delivers a datagram of at least 7 bytes from the device that fits the
  buffer, \<open>modbus_RecvPacket\<close> returns -1 exactly when the first two bytes are not the
  pending transaction id; for 7 to 14 bytes with the pending id it returns the number of
  bytes received and moves the bytes behind the header to the front of the buffer. Where
  \<open>recvfrom\<close> rejects the address-length argument of the source, it returns -1 for such a
  datagram with another transaction id. Bytes 4 and 5 of the datagram play no part in any
  of this.
\<close>

theorem RecvPacket_length_field_unchecked:
  assumes "sock_open w" and "inbox w = RxFrame (addr d) bs # rest"
    and "7 \<le> length bs" and "length bs \<le> length buf"
  shows "(recvfrom_accepts_addrlen e \<longrightarrow>
            (fst (modbus_RecvPacket e w (Some d) (Some buf) tID) = Inr (-1)) =
            (mem_u16 (bs ! 0) (bs ! 1) \<noteq> tID)) \<and>
         (recvfrom_accepts_addrlen e \<and> length bs \<le> 14 \<longrightarrow>
            modbus_RecvPacket e w (Some d) (Some buf) tID =
              (if mem_u16 (bs ! 0) (bs ! 1) = tID
               then (Inr (int (length bs)),
                     drop 7 bs @ drop (length bs - 7) bs @ drop (length bs) buf,
                     w\<lparr>inbox := rest\<rparr>)
               else (Inr (-1), bs @ drop (length bs) buf, w\<lparr>inbox := rest\<rparr>))) \<and>
         (\<not> recvfrom_accepts_addrlen e \<and> mem_u16 (bs ! 0) (bs ! 1) \<noteq> tID \<longrightarrow>
            modbus_RecvPacket e w (Some d) (Some buf) tID =
              (Inr (-1), bs @ drop (length bs) buf, w\<lparr>inbox := rest\<rparr>))"
proof (intro conjI impI)
  define B where "B = bs @ drop (length bs) buf"
  have lB: "2 \<le> length B"
    using assms(3) by (simp add: B_def)
  have ne: "bs \<noteq> []"
    using assms(3) by auto
  have h: "B ! 0 = bs ! 0" "B ! Suc 0 = bs ! Suc 0"
    using assms(3) ne by (simp_all add: B_def nth_append)
  have l2: "2 \<le> length buf" "2 \<le> length bs"
    using assms(3,4) by simp_all
  have n7: "7 \<le> int (length bs)"
    using assms(3) by linarith
  {
    assume acc: "recvfrom_accepts_addrlen e"
    note ab = RecvPacket_after_block
      [OF RecvBlock_frame [OF assms(1) acc assms(2) refl assms(4), folded B_def] lB, of tID]
    show "(fst (modbus_RecvPacket e w (Some d) (Some buf) tID) = Inr (-1)) =
            (mem_u16 (bs ! 0) (bs ! 1) \<noteq> tID)"
      unfolding ab using n7 by (simp add: h split: option.split)
  }
  {
    assume "recvfrom_accepts_addrlen e \<and> length bs \<le> 14"
    then have acc: "recvfrom_accepts_addrlen e" and l14: "length bs \<le> 14"
      by simp_all
    show "modbus_RecvPacket e w (Some d) (Some buf) tID =
              (if mem_u16 (bs ! 0) (bs ! 1) = tID
               then (Inr (int (length bs)),
                     drop 7 bs @ drop (length bs - 7) bs @ drop (length bs) buf,
                     w\<lparr>inbox := rest\<rparr>)
               else (Inr (-1), bs @ drop (length bs) buf, w\<lparr>inbox := rest\<rparr>))"
    proof (cases "mem_u16 (bs ! 0) (bs ! 1) = tID")
      case True
      with RecvPacket_frame [OF assms(1) acc assms(2) refl assms(3) l14 assms(4) True]
      show ?thesis by simp
    next
      case False
      with RecvPacket_skips_mismatch [where skipped = "[]", OF assms(1) acc _ _ l2 False,
          of d rest] assms(2,4)
      show ?thesis
        by (simp add: after_events_def recv_into_fits)
    qed
  }
  {
    assume "\<not> recvfrom_accepts_addrlen e \<and> mem_u16 (bs ! 0) (bs ! 1) \<noteq> tID"
    then have nacc: "\<not> recvfrom_accepts_addrlen e" and ne: "mem_u16 (bs ! 0) (bs ! 1) \<noteq> tID"
      by simp_all
    from RecvPacket_efault [OF assms(1) nacc assms(2) l2 ne, of d] assms(4)
    show "modbus_RecvPacket e w (Some d) (Some buf) tID =
              (Inr (-1), bs @ drop (length bs) buf, w\<lparr>inbox := rest\<rparr>)"
      by (simp add: recv_into_fits)
  }
qed

text \<open>
  The theorem at work: a datagram that declares 0 bytes to follow and carries the pending
  transaction id is taken with its 9 bytes; where \<open>recvfrom\<close> rejects the address-length
  argument, a datagram with another transaction id gives -1.
\<close>

theorem RecvPacket_length_field_unchecked_witness:
  "modbus_RecvPacket example_env
      (example_world [RxFrame (addr example_device) [0x34, 0x12, 0, 0, 0, 0, 255, 0x81, 2]])
      (Some example_device) (Some [0, 0, 0, 0, 0, 0, 0, 0, 0, 0, 0, 0]) 0x1234 =
     (Inr 9, [0x81, 2, 0, 0, 0, 0, 255, 0x81, 2, 0, 0, 0], example_world []) \<and>
   fst (modbus_RecvPacket example_env
      (example_world [RxFrame (addr example_device) [0x34, 0x12, 0, 0, 0, 0, 255, 0x81, 2]])
      (Some example_device) (Some [0, 0, 0, 0, 0, 0, 0, 0, 0, 0, 0, 0]) 0x1234) \<noteq> Inr (-1) \<and>
   modbus_RecvPacket efault_env
      (example_world [RxFrame (addr example_device) [0x35, 0x12, 0, 0, 0, 0, 255, 0x81, 2]])
      (Some example_device) (Some [0, 0, 0, 0, 0, 0, 0, 0, 0, 0, 0, 0]) 0x1234 =
     (Inr (-1), [0x35, 0x12, 0, 0, 0, 0, 255, 0x81, 2, 0, 0, 0], example_world [])"
  using RecvPacket_length_field_unchecked
      [where e = example_env
        and w = "example_world [RxFrame (addr example_device) [0x34, 0x12, 0, 0, 0, 0, 255, 0x81, 2]]"
        and d = example_device and bs = "[0x34, 0x12, 0, 0, 0, 0, 255, 0x81, 2]" and rest = "[]"
        and buf = "[0, 0, 0, 0, 0, 0, 0, 0, 0, 0, 0, 0]" and tID = "0x1234"]
    RecvPacket_length_field_unchecked
      [where e = efault_env
        and w = "example_world [RxFrame (addr example_device) [0x35, 0x12, 0, 0, 0, 0, 255, 0x81, 2]]"
        and d = example_device and bs = "[0x35, 0x12, 0, 0, 0, 0, 255, 0x81, 2]" and rest = "[]"
        and buf = "[0, 0, 0, 0, 0, 0, 0, 0, 0, 0, 0, 0]" and tID = "0x1234"]
  by (simp add: example_world_def example_env_def efault_env_def mem_u16_def)

text \<open>
  Against the claim as stated: the header declares 65535 bytes to follow, 3 do. Where
  \<open>recvfrom\<close> delivers the datagram, \<open>modbus_RecvPacket\<close> returns 9, the number of bytes
  received, as for any other frame.
\<close>

theorem RecvPacket_accepts_wrong_length:
  "fst (modbus_RecvPacket example_env
      (example_world [RxFrame (addr example_device) [0x34, 0x12, 0, 0, 0xFF, 0xFF, 255, 1, 1]])
      (Some example_device) (Some [0, 0, 0, 0, 0, 0, 0, 0, 0, 0, 0, 0]) 0x1234) = Inr 9"
  using RecvPacket_frame
      [where e = example_env
        and w = "example_world [RxFrame (addr example_device) [0x34, 0x12, 0, 0, 0xFF, 0xFF, 255, 1, 1]]"
        and d = example_device and bs = "[0x34, 0x12, 0, 0, 0xFF, 0xFF, 255, 1, 1]" and rest = "[]"
        and n = 9 and buf = "[0, 0, 0, 0, 0, 0, 0, 0, 0, 0, 0, 0]" and tID = "0x1234"]
  by (simp add: example_world_def example_env_def mem_u16_def)

section \<open>Transaction identifiers\<close>

text \<open>
  C9. Every transaction id \<open>modbus_ConstructPacket\<close> hands out is \<open>rand() % 65535\<close>, hence
  between 0 and 65534, and never 65535. \<open>modbus_SendPacket\<close> returns -1 when the device is
  null or the packet could not be built, and otherwise that id as an \<open>int\<close> between 0 and
  65534: a returned id is never -1, nor 65535, the value -1 takes in the \<open>uint16_t\<close>
  parameter of \<open>modbus_RecvPacket\<close>.
\<close>

theorem transaction_id_range:
  "(\<forall>frame tid. modbus_ConstructPacket e pBuf pOutBuf pOutLen = Some (frame, tid) \<longrightarrow>
       unat tid \<le> 65534 \<and> tid \<noteq> 65535) \<and>
   (case device of
      None \<Rightarrow> fst (modbus_SendPacket e w device pData) = -1
    | Some d \<Rightarrow>
        (case modbus_ConstructPacket e (Some pData) (tx_buf_ptr e) (outlen_ptr e) of
           None \<Rightarrow> fst (modbus_SendPacket e w device pData) = -1
         | Some (frame, tid) \<Rightarrow>
             fst (modbus_SendPacket e w device pData) = uint tid \<and>
             0 \<le> uint tid \<and> uint tid \<le> 65534 \<and>
             fst (modbus_SendPacket e w device pData) \<noteq> -1 \<and>
             (word_of_int (fst (modbus_SendPacket e w device pData)) :: u16) \<noteq> word_of_int (-1)))"
proof -
  have rng: "unat tid \<le> 65534 \<and> tid \<noteq> 65535"
    if "modbus_ConstructPacket e p q l = Some (frame, tid)" for p q l frame tid
  proof -
    from that have "tid = of_nat (rand_val e mod 65535)"
      by (auto simp add: modbus_ConstructPacket_def Let_def split: option.splits if_splits)
    then have u: "unat tid = rand_val e mod 65535"
      by (simp add: unat_tid)
    have "unat tid \<le> 65534"
      unfolding u by (rule tid_below)
    moreover from this have "tid \<noteq> 65535"
      by auto
    ultimately show ?thesis by simp
  qed
  have snd: "fst (modbus_SendPacket e w (Some d) pData) = uint tid"
    if "modbus_ConstructPacket e (Some pData) (tx_buf_ptr e) (outlen_ptr e) = Some (frame, tid)"
    for d frame tid
    using that by (simp add: modbus_SendPacket_def)
  show ?thesis
  proof (intro conjI allI impI)
    fix frame tid
    assume "modbus_ConstructPacket e pBuf pOutBuf pOutLen = Some (frame, tid)"
    then show "unat tid \<le> 65534" and "tid \<noteq> 65535"
      using rng by blast+
  next
    show "case device of
            None \<Rightarrow> fst (modbus_SendPacket e w device pData) = -1
          | Some d \<Rightarrow>
              (case modbus_ConstructPacket e (Some pData) (tx_buf_ptr e) (outlen_ptr e) of
                 None \<Rightarrow> fst (modbus_SendPacket e w device pData) = -1
               | Some (frame, tid) \<Rightarrow>
                   fst (modbus_SendPacket e w device pData) = uint tid \<and>
                   0 \<le> uint tid \<and> uint tid \<le> 65534 \<and>
                   fst (modbus_SendPacket e w device pData) \<noteq> -1 \<and>
                   (word_of_int (fst (modbus_SendPacket e w device pData)) :: u16) \<noteq> word_of_int (-1))"
    proof (cases device)
      case None
      then show ?thesis by (simp add: modbus_SendPacket_def)
    next
      case (Some d)
      show ?thesis
      proof (cases "modbus_ConstructPacket e (Some pData) (tx_buf_ptr e) (outlen_ptr e)")
        case None
        with Some show ?thesis by (simp add: modbus_SendPacket_def)
      next
        case (Some ft)
        obtain frame tid where ft: "ft = (frame, tid)" by (cases ft)
        have cp: "modbus_ConstructPacket e (Some pData) (tx_buf_ptr e) (outlen_ptr e) = Some (frame, tid)"
          using Some ft by simp
        have r: "unat tid \<le> 65534" "tid \<noteq> 65535"
          using rng [OF cp] by simp_all
        have ui: "uint tid \<le> 65534"
          using r(1) unfolding uint_nat by linarith
        have nn: "0 \<le> uint tid" by simp
        then have nm: "uint tid \<noteq> -1" by linarith
        have m1: "(word_of_int (-1) :: u16) = 65535" by simp
        have tr: "(word_of_int (uint tid) :: u16) \<noteq> word_of_int (-1)"
          unfolding m1 word_of_int_uint by (rule r(2))
        have res: "fst (modbus_SendPacket e w device pData) = uint tid"
          using snd [OF cp] \<open>device = Some d\<close> by simp
        show ?thesis
          unfolding \<open>device = Some d\<close> option.case cp prod.case
          using res ui nn nm tr \<open>device = Some d\<close> by (simp only: simp_thms)
      qed
    qed
  qed
qed

theorem transaction_id_range_witness:
  "modbus_ConstructPacket example_env (Some [1, 2, 3, 4, 5, 6]) 0x1000 0x7FFC0000
     = Some ([0x34, 0x12, 0, 0, 7, 0, 255, 1, 2, 3, 4, 5, 6], 0x1234) \<and>
   unat (0x1234 :: u16) \<le> 65534 \<and> (0x1234 :: u16) \<noteq> 65535"
proof -
  have cp: "modbus_ConstructPacket example_env (Some [1, 2, 3, 4, 5, 6]) 0x1000 0x7FFC0000
     = Some ([0x34, 0x12, 0, 0, 7, 0, 255, 1, 2, 3, 4, 5, 6], 0x1234)"
    by (simp add: modbus_ConstructPacket_def example_env_def mbap_mem_def u16_mem_def)
  from transaction_id_range [where e = example_env and pBuf = "Some [1, 2, 3, 4, 5, 6]"
      and pOutBuf = "0x1000" and pOutLen = "0x7FFC0000" and device = None
      and w = "example_world []" and pData = "[]"] cp
  show ?thesis by blast
qed

section \<open>Validation in \<open>modbus_ReadCoils\<close>\<close>

text \<open>
  C10. With non-null output pointers, \<open>modbus_ReadCoils\<close> returns -1 before any I/O
  exactly for a coil count above \<open>0x7D0\<close>. Every count up to 2000, 0 included, passes: with
  an open socket, a send buffer and room for the frame, the request for that count is put
  on the wire, whatever happens afterwards.
\<close>

theorem ReadCoils_validation:
  assumes "pOutBuf \<noteq> 0" and "nOutCoils \<noteq> 0"
  shows "(0x7D0 < ncoils \<longrightarrow>
            modbus_ReadCoils e w (Some d) a ncoils pOutBuf nOutCoils = returns (-1) w) \<and>
         (ncoils \<le> 0x7D0 \<and> sock_open w \<and> tx_buf_ptr e \<noteq> 0 \<and> 13 \<le> unat (outlen_ptr e) \<longrightarrow>
            wire (final (modbus_ReadCoils e w (Some d) a ncoils pOutBuf nOutCoils)) =
              wire w @ [(addr d,
                 mbap_mem \<lparr> trans_id = of_nat (rand_val e mod 65535), protocol_id = 0,
                            len = 7, unit_id = 255 \<rparr> @
                 req_mem 1 (pad_junk e) (swap16 a) (swap16 ncoils))])"
proof (intro conjI impI)
  assume "0x7D0 < ncoils"
  with assms show "modbus_ReadCoils e w (Some d) a ncoils pOutBuf nOutCoils = returns (-1) w"
    by (simp add: modbus_ReadCoils_def)
next
  assume h: "ncoils \<le> 0x7D0 \<and> sock_open w \<and> tx_buf_ptr e \<noteq> 0 \<and> 13 \<le> unat (outlen_ptr e)"
  define pdu where "pdu = req_mem 1 (pad_junk e) (swap16 a) (swap16 ncoils)"
  define frame where "frame = mbap_mem \<lparr> trans_id = of_nat (rand_val e mod 65535), protocol_id = 0,
                            len = 7, unit_id = 255 \<rparr> @ pdu"
  define w1 where "w1 = modbus_ConnectDevice w (Some d)"
  define w2 where "w2 = w1\<lparr>wire := wire w1 @ [(addr d, frame)]\<rparr>"
  have lp: "length pdu = 6"
    by (simp add: pdu_def req_mem_def u16_mem_def)
  have w1: "sock_open w1" "wire w1 = wire w"
    using h by (simp_all add: w1_def modbus_ConnectDevice_def)
  have snd: "modbus_SendPacket e w1 (Some d) pdu = (int (rand_val e mod 65535), w2)"
    using SendPacket_sent [of e pdu w1 d] h w1 lp
    by (simp add: w2_def frame_def)
  have ww2: "wire w2 = wire w @ [(addr d, frame)]"
    by (simp add: w2_def w1)
  have nle: "\<not> 0x7D0 < ncoils"
    using h leD by blast
  have "wire (final (modbus_ReadCoils e w (Some d) a ncoils pOutBuf nOutCoils)) =
          wire w @ [(addr d, frame)]"
    unfolding modbus_ReadCoils_def
    using assms nle ww2
    by (auto simp add: Let_def pdu_def [symmetric] w1_def [symmetric] snd
        returns_def aborts_def modbus_DisconnectDevice_def
        split: prod.splits sum.splits list.splits option.splits
        dest!: RecvPacket_keeps)
  then show "wire (final (modbus_ReadCoils e w (Some d) a ncoils pOutBuf nOutCoils)) =
              wire w @ [(addr d,
                 mbap_mem \<lparr> trans_id = of_nat (rand_val e mod 65535), protocol_id = 0,
                            len = 7, unit_id = 255 \<rparr> @
                 req_mem 1 (pad_junk e) (swap16 a) (swap16 ncoils))]"
    by (simp add: frame_def pdu_def)
qed

theorem ReadCoils_validation_witness:
  "(0x3000 :: ptr) \<noteq> 0 \<and> (0x4000 :: ptr) \<noteq> 0 \<and>
   modbus_ReadCoils example_env (example_world []) (Some example_device) 0 2001 0x3000 0x4000 =
     returns (-1) (example_world []) \<and>
   wire (final (modbus_ReadCoils example_env (example_world []) (Some example_device) 0 0
                  0x3000 0x4000)) =
     [(addr example_device, [0x34, 0x12, 0, 0, 7, 0, 255, 1, 0, 0, 0, 0, 0])] \<and>
   wire (final (modbus_ReadCoils example_env (example_world []) (Some example_device) 0 2000
                  0x3000 0x4000)) =
     [(addr example_device, [0x34, 0x12, 0, 0, 7, 0, 255, 1, 0, 0, 0, 0x07, 0xD0])]"
proof -
  have p: "(0x3000 :: ptr) \<noteq> 0" "(0x4000 :: ptr) \<noteq> 0"
    by simp_all
  have e: "sock_open (example_world [])" "tx_buf_ptr example_env \<noteq> 0"
    "13 \<le> unat (outlen_ptr example_env)" "wire (example_world []) = []"
    by (simp_all add: example_world_def example_env_fields)
  have c: "(0x7D0 :: u16) < 2001" "(0 :: u16) \<le> 0x7D0" "(2000 :: u16) \<le> 0x7D0"
    by simp_all
  note v = ReadCoils_validation [OF p, where e = example_env and w = "example_world []"
      and d = example_device and a = 0]
  from v [where ncoils = 2001] v [where ncoils = 0] v [where ncoils = 2000] p e c
  show ?thesis
    by (simp add: example_env_fields swap16_examples mbap_mem_def u16_mem_def req_mem_def)
qed

end
